theory Spec2Isabelle
  imports Complex_Main
begin

section \<open>Python values used by \<open>nimare/decode/discrete.py\<close>\<close>

text \<open>
  Exceptions are values. The string carried by an exception is the start of the message the
  source raises with (empty where the exception comes from numpy, pandas or Python itself).
\<close>

datatype py_error =
    IOError string
  | ValueError string
  | IndexError
  | KeyError
  | ZeroDivisionError

text \<open>
  A keyword parameter of a Python signature: the caller omits it, or passes a value.
  \<open>kw d a\<close> is the value the body sees for a parameter declared \<open>name=d\<close>.
\<close>

datatype 'a kwarg = Omitted | Passed 'a

fun kw :: "'a \<Rightarrow> 'a kwarg \<Rightarrow> 'a" where
  "kw d Omitted = d"
| "kw d (Passed a) = a"

subsection \<open>numpy floats\<close>

text \<open>
  A numpy \<open>float64\<close> is a finite number, an infinity or NaN. Finite values are modelled as
  reals: rounding, overflow to infinity and the sign of zero are abstracted away, everything
  else follows IEEE 754 as numpy applies it (a division by zero warns and yields an infinity
  or NaN, it does not raise).
\<close>

datatype npfloat = Fin real | PInf | NInf | NaN

fun is_finite :: "npfloat \<Rightarrow> bool" where
  "is_finite (Fin x) = True"
| "is_finite x = False"

definition inf_of_sign :: "real \<Rightarrow> npfloat" where
  "inf_of_sign s = (if 0 < s then PInf else if s < 0 then NInf else NaN)"

fun np_sgn :: "npfloat \<Rightarrow> real" where
  "np_sgn (Fin x) = sgn x"
| "np_sgn PInf = 1"
| "np_sgn NInf = - 1"
| "np_sgn NaN = 0"

fun np_add :: "npfloat \<Rightarrow> npfloat \<Rightarrow> npfloat" where
  "np_add NaN y = NaN"
| "np_add x NaN = NaN"
| "np_add (Fin a) (Fin b) = Fin (a + b)"
| "np_add PInf NInf = NaN"
| "np_add NInf PInf = NaN"
| "np_add PInf y = PInf"
| "np_add NInf y = NInf"
| "np_add (Fin a) y = y"

fun np_neg :: "npfloat \<Rightarrow> npfloat" where
  "np_neg (Fin a) = Fin (- a)"
| "np_neg PInf = NInf"
| "np_neg NInf = PInf"
| "np_neg NaN = NaN"

definition np_sub :: "npfloat \<Rightarrow> npfloat \<Rightarrow> npfloat" where
  "np_sub x y = np_add x (np_neg y)"

fun np_mul :: "npfloat \<Rightarrow> npfloat \<Rightarrow> npfloat" where
  "np_mul NaN y = NaN"
| "np_mul x NaN = NaN"
| "np_mul (Fin a) (Fin b) = Fin (a * b)"
| "np_mul x y = inf_of_sign (np_sgn x * np_sgn y)"

fun np_div :: "npfloat \<Rightarrow> npfloat \<Rightarrow> npfloat" where
  "np_div NaN y = NaN"
| "np_div x NaN = NaN"
| "np_div (Fin a) (Fin b) = (if b = 0 then inf_of_sign (sgn a) else Fin (a / b))"
| "np_div (Fin a) y = Fin 0"
| "np_div x (Fin b) = inf_of_sign (np_sgn x * (if b < 0 then - 1 else 1))"
| "np_div x y = NaN"

definition np_sum :: "npfloat list \<Rightarrow> npfloat" where
  "np_sum xs = foldr np_add xs (Fin 0)"

text \<open>\<open>==\<close> on floats: NaN is equal to nothing, itself included.\<close>

fun np_eq :: "npfloat \<Rightarrow> npfloat \<Rightarrow> bool" where
  "np_eq NaN y = False"
| "np_eq x NaN = False"
| "np_eq x y = (x = y)"

text \<open>\<open>np.array_equal\<close> on two-dimensional arrays: same shape and all elements equal.\<close>

definition array_equal :: "npfloat list list \<Rightarrow> npfloat list list \<Rightarrow> bool" where
  "array_equal a b = list_all2 (list_all2 np_eq) a b"

text \<open>
  A two-dimensional array of finite floats. The number of columns is part of the shape, so
  that an array with no rows still has one.
\<close>

record ndarray2 =
  ncols :: nat
  nrows_data :: "real list list"

text \<open>\<open>np.sum(a, axis=0)\<close> for an array of the given rows with \<open>n\<close> columns.\<close>

definition sum_axis0 :: "nat \<Rightarrow> real list list \<Rightarrow> real list" where
  "sum_axis0 n rs = map (\<lambda>j. sum_list (map (\<lambda>r. r ! j) rs)) [0..<n]"

definition dot :: "real list \<Rightarrow> real list \<Rightarrow> real" where
  "dot r v = sum_list (map (\<lambda>(a, b). a * b) (zip r v))"

section \<open>\<open>gclda_decode_roi\<close>\<close>

text \<open>
  A nifti image: its affine (4 by 4 in practice) and its data in \<open>ravel()\<close> order.
\<close>

record nifti =
  affine :: "npfloat list list"
  get_data :: "real list"

text \<open>The \<open>roi\<close> argument: a path, an image, or any other Python object.\<close>

datatype roi_arg = RoiPath string | RoiImage nifti | RoiOther

text \<open>
  The fields of \<open>GCLDAModel\<close> the function reads. \<open>p_topic_g_voxel\<close> has one row per voxel
  inside the mask and one column per topic; \<open>p_word_g_topic\<close> has one row per word of the
  vocabulary and one column per topic.
\<close>

record gclda_model =
  mask :: nifti
  p_topic_g_voxel :: ndarray2
  p_word_g_topic :: ndarray2
  vocabulary :: "string list"

text \<open>
  \<open>topic_weights *= weighted_priors\<close>: in place, so the right operand must broadcast to the
  shape of the left one (same length, or length one).
\<close>

definition imul :: "real list \<Rightarrow> real list \<Rightarrow> py_error + real list" where
  "imul tw wp =
     (if length wp = length tw then Inr (map (\<lambda>(t, w). t * w) (zip tw wp))
      else if length wp = 1 then Inr (map (\<lambda>t. t * hd wp) tw)
      else Inl (ValueError []))"

text \<open>\<open>np.dot\<close> of a two-dimensional array with a vector.\<close>

definition np_dot :: "ndarray2 \<Rightarrow> real list \<Rightarrow> py_error + real list" where
  "np_dot m v =
     (if ncols m = length v then Inr (map (\<lambda>r. dot r v) (nrows_data m))
      else Inl (ValueError []))"

text \<open>The voxels of the ROI that lie inside the mask, as indices among the mask's voxels
  (\<open>roi_vec[mask_vec]\<close> followed by \<open>np.where\<close>).\<close>

definition bool_index :: "bool list \<Rightarrow> bool list \<Rightarrow> bool list" where
  "bool_index roi_vec mask_vec = map fst (filter snd (zip roi_vec mask_vec))"

definition np_where :: "bool list \<Rightarrow> nat list" where
  "np_where v = filter (\<lambda>i. v ! i) [0..<length v]"

definition roi_idx :: "real list \<Rightarrow> real list \<Rightarrow> nat list" where
  "roi_idx mask_data roi_data =
     np_where (bool_index (map (\<lambda>x. x \<noteq> 0) roi_data) (map (\<lambda>x. x \<noteq> 0) mask_data))"

text \<open>
  The function. \<open>load\<close> stands for \<open>nib.load\<close> and \<open>weight_priors\<close> for
  \<open>nimare.decode.utils.weight_priors\<close>, which are not part of this file. The result is the
  decoded table (one row per vocabulary term, with its weight) and the topic weights.
\<close>

definition roi_image :: "(string \<Rightarrow> py_error + nifti) \<Rightarrow> roi_arg \<Rightarrow> py_error + nifti" where
  "roi_image load roi =
     (case roi of
        RoiPath p \<Rightarrow> load p
      | RoiImage img \<Rightarrow> Inr img
      | RoiOther \<Rightarrow> Inl (IOError ''Input roi must be either a nifti image''))"

definition gclda_decode_roi ::
  "(string \<Rightarrow> py_error + nifti) \<Rightarrow> (real list \<Rightarrow> real \<Rightarrow> real list) \<Rightarrow>
   gclda_model \<Rightarrow> roi_arg \<Rightarrow> real list option \<Rightarrow> real \<Rightarrow>
   py_error + ((string \<times> real) list \<times> real list)" where
  "gclda_decode_roi load weight_priors model roi topic_priors prior_weight =
     (case roi_image load roi of
        Inl e \<Rightarrow> Inl e
      | Inr img \<Rightarrow>
          (if \<not> array_equal (affine img) (affine (mask model))
           then Inl (ValueError ''Input roi must have same affine as mask img'')
           else if length (get_data img) \<noteq> length (get_data (mask model)) then Inl IndexError
           else
             (let idx = roi_idx (get_data (mask model)) (get_data img) in
              if list_ex (\<lambda>i. length (nrows_data (p_topic_g_voxel model)) \<le> i) idx
              then Inl IndexError
              else
                (let p_topic_g_roi = map (\<lambda>i. nrows_data (p_topic_g_voxel model) ! i) idx;
                     topic_weights = sum_axis0 (ncols (p_topic_g_voxel model)) p_topic_g_roi
                 in (case (case topic_priors of
                             None \<Rightarrow> Inr topic_weights
                           | Some pr \<Rightarrow> imul topic_weights (weight_priors pr prior_weight)) of
                       Inl e \<Rightarrow> Inl e
                     | Inr tw \<Rightarrow>
                         (case np_dot (p_word_g_topic model) tw of
                            Inl e \<Rightarrow> Inl e
                          | Inr word_weights \<Rightarrow>
                              (if length (vocabulary model) \<noteq> length word_weights
                               then Inl (ValueError [])
                               else Inr (zip (vocabulary model) word_weights, tw))))))))"

section \<open>The study counts shared by \<open>brainmap_decode\<close> and \<open>neurosynth_decode\<close>\<close>

text \<open>
  The coordinate table is read through its \<open>id\<close> column only, one entry per focus, so it is
  modelled as that column. The annotation table has its column labels (\<open>id\<close> among them) and
  its rows: the value of the \<open>id\<close> column and the weights stored under the other labels. A
  label with no weight in a row is a missing value, which compares false with everything.
  Study identifiers are of any ordered type, as \<open>sorted\<close> needs.
\<close>

record 'id annotations =
  columns :: "string list"
  ann_rows :: "('id \<times> (string \<times> real) list) list"

definition id_cols :: "string list" where
  "id_cols = [''id'', ''study_id'', ''contrast_id'']"

text \<open>\<open>sorted(list(set(xs)))\<close>\<close>

definition dataset_ids :: "('id::linorder) list \<Rightarrow> 'id list" where
  "dataset_ids coordinates = sort (remdups coordinates)"

text \<open>Lines 129 to 133 and 242 to 246: the same statements in both functions.\<close>

definition unselected :: "('id::linorder) list \<Rightarrow> 'id list \<Rightarrow> 'id list option \<Rightarrow> 'id list" where
  "unselected coordinates ids ids2 =
     (case ids2 of
        None \<Rightarrow> sort (filter (\<lambda>i. i \<notin> set ids) (remdups (dataset_ids coordinates)))
      | Some l \<Rightarrow> l)"

definition resolve_features :: "'id annotations \<Rightarrow> string list option \<Rightarrow> string list" where
  "resolve_features annotations features =
     (case features of
        None \<Rightarrow> filter (\<lambda>f. f \<notin> set id_cols) (columns annotations)
      | Some fs \<Rightarrow> fs)"

text \<open>
  The labels of the columns of \<open>features_df[features]\<close>: pandas selects, for each requested
  label in turn, every column that carries it. So a label requested twice, or carried by two
  columns, appears more than once.
\<close>

definition df_columns :: "'id annotations \<Rightarrow> string list \<Rightarrow> string list" where
  "df_columns annotations feats =
     concat (map (\<lambda>f. filter (\<lambda>c. c = f) (columns annotations)) feats)"

text \<open>
  \<open>annotations.set_index('id', drop=True)[features].ge(frequency_threshold)\<close>: a KeyError
  when there is no \<open>id\<close> column or when a feature is not a column of the indexed frame, a
  ValueError when two columns are labelled \<open>id\<close> (no index can be made of them). The
  frame below has one column for each requested label. That is the frame pandas builds when
  every requested label is carried by one column; when a label is carried by several
  columns, pandas builds a wider frame, and both decoders then raise a ValueError before
  any cell of it reaches a result (see \<open>df_columns\<close> in \<open>brainmap_decode\<close> and
  \<open>neurosynth_decode\<close>).
\<close>

definition binarize ::
  "'id annotations \<Rightarrow> string list \<Rightarrow> real \<Rightarrow> py_error + ('id \<times> bool list) list" where
  "binarize annotations feats thr =
     (if ''id'' \<notin> set (columns annotations) then Inl KeyError
      else if length (filter (\<lambda>c. c = ''id'') (columns annotations)) \<noteq> 1
      then Inl (ValueError [])
      else if list_ex (\<lambda>f. f \<notin> set (columns annotations) \<or> f = ''id'') feats then Inl KeyError
      else Inr (map (\<lambda>(i, ws). (i, map (\<lambda>f. case map_of ws f of
                                                  Some w \<Rightarrow> thr \<le> w
                                                | None \<Rightarrow> False) feats))
                    (ann_rows annotations)))"

text \<open>
  \<open>df.loc[labels].values\<close>: the rows of each label in turn, a KeyError for a label that the
  index does not have.
\<close>

fun loc :: "('id \<times> 'b) list \<Rightarrow> 'id list \<Rightarrow> py_error + 'b list" where
  "loc df [] = Inr []"
| "loc df (i # is) =
     (case filter (\<lambda>r. fst r = i) df of
        [] \<Rightarrow> Inl KeyError
      | r # rs \<Rightarrow> (case loc df is of
                    Inl e \<Rightarrow> Inl e
                  | Inr rest \<Rightarrow> Inr (map snd (r # rs) @ rest)))"

text \<open>\<open>np.sum(arr, axis=0)\<close> on a boolean array with \<open>n\<close> columns.\<close>

definition count_axis0 :: "nat \<Rightarrow> bool list list \<Rightarrow> int list" where
  "count_axis0 n arr = map (\<lambda>j. int (length (filter (\<lambda>r. r ! j) arr))) [0..<n]"

text \<open>The local variables both functions have computed at lines 157 and 266.\<close>

record 'id study_counts =
  features :: "string list"
  features_df :: "('id \<times> bool list) list"
  n_selected :: int
  n_unselected :: int
  n_selected_term :: "int list"
  n_unselected_term :: "int list"

definition count_studies ::
  "('id::linorder) list \<Rightarrow> 'id annotations \<Rightarrow> 'id list \<Rightarrow> 'id list option \<Rightarrow>
   string list option \<Rightarrow> real \<Rightarrow> py_error + 'id study_counts" where
  "count_studies coordinates annotations ids ids2 feats frequency_threshold =
     (let unsel = unselected coordinates ids ids2;
          fs = resolve_features annotations feats
      in case binarize annotations fs frequency_threshold of
           Inl e \<Rightarrow> Inl e
         | Inr df \<Rightarrow>
             (case loc df ids of
                Inl e \<Rightarrow> Inl e
              | Inr sel_array \<Rightarrow>
                  (case loc df unsel of
                     Inl e \<Rightarrow> Inl e
                   | Inr unsel_array \<Rightarrow>
                       Inr \<lparr>features = fs, features_df = df,
                            n_selected = int (length ids),
                            n_unselected = int (length unsel),
                            n_selected_term = count_axis0 (length fs) sel_array,
                            n_unselected_term = count_axis0 (length fs) unsel_array\<rparr>)))"

definition n_selected_noterm :: "'id study_counts \<Rightarrow> int list" where
  "n_selected_noterm c = map (\<lambda>k. n_selected c - k) (n_selected_term c)"

definition n_unselected_noterm :: "'id study_counts \<Rightarrow> int list" where
  "n_unselected_noterm c = map (\<lambda>k. n_unselected c - k) (n_unselected_term c)"

definition n_term :: "'id study_counts \<Rightarrow> int list" where
  "n_term c = map (\<lambda>(a, b). a + b) (zip (n_selected_term c) (n_unselected_term c))"

text \<open>Division of two integer counts by numpy: a float.\<close>

definition int_div :: "int \<Rightarrow> int \<Rightarrow> npfloat" where
  "int_div a b = np_div (Fin (of_int a)) (Fin (of_int b))"

text \<open>
  The functions of other modules. \<open>two_way\<close> and \<open>p_to_z\<close> (of \<open>nimare.stats\<close>) and
  \<open>special.chdtrc(1, _)\<close> treat each feature on its own and are taken per feature:
  \<open>two_way\<close> receives the four counts of \<open>cells[f]\<close> in row order. \<open>one_way\<close> and
  \<open>multipletests\<close> (with its \<open>alpha\<close> and \<open>method\<close>) work on whole vectors.
\<close>

record externals =
  two_way :: "int \<times> int \<times> int \<times> int \<Rightarrow> npfloat"
  one_way :: "int list \<Rightarrow> int list \<Rightarrow> npfloat list"
  chdtrc :: "npfloat \<Rightarrow> npfloat"
  multipletests :: "npfloat list \<Rightarrow> real \<Rightarrow> string \<Rightarrow> npfloat list"
  p_to_z :: "npfloat \<Rightarrow> npfloat"

text \<open>
  \<open>np.array([[n_selected_term, n_selected_noterm], [n_unselected_term,
  n_unselected_noterm]]).T\<close>: the transpose reverses all three axes.
\<close>

definition cells :: "'id study_counts \<Rightarrow> (int \<times> int \<times> int \<times> int) list" where
  "cells c =
     map (\<lambda>((st, ut), (sn, un)). (st, ut, sn, un))
       (zip (zip (n_selected_term c) (n_unselected_term c))
            (zip (n_selected_noterm c) (n_unselected_noterm c)))"

definition np_mean :: "int list \<Rightarrow> npfloat" where
  "np_mean xs = int_div (sum_list xs) (int (length xs))"

fun np_sign :: "npfloat \<Rightarrow> npfloat" where
  "np_sign (Fin x) = Fin (sgn x)"
| "np_sign PInf = Fin 1"
| "np_sign NInf = Fin (- 1)"
| "np_sign NaN = NaN"

definition sign_fi :: "'id study_counts \<Rightarrow> npfloat list" where
  "sign_fi c =
     map (\<lambda>k. np_sign (np_sub (Fin (of_int k)) (np_mean (n_selected_term c)))) (n_selected_term c)"

text \<open>
  Lines 198 to 205 and 295 to 302. A corrected vector of another length than the features
  cannot be multiplied with the signs.
\<close>

definition correct ::
  "externals \<Rightarrow> string option \<Rightarrow> real \<Rightarrow> npfloat list \<Rightarrow> py_error + npfloat list" where
  "correct ext correction u p =
     (case correction of
        None \<Rightarrow> Inr p
      | Some method \<Rightarrow>
          (let p_corr = multipletests ext p u method in
           if length p_corr = length p then Inr p_corr else Inl (ValueError [])))"

text \<open>
  A row of the returned frame. \<open>effectForward\<close> is the column \<open>likelihoodForward\<close> of
  \<open>brainmap_decode\<close> and the column \<open>probForward\<close> of \<open>neurosynth_decode\<close>.
\<close>

record decoded_row =
  Term :: string
  pForward :: npfloat
  zForward :: npfloat
  effectForward :: npfloat
  pReverse :: npfloat
  zReverse :: npfloat
  probReverse :: npfloat

definition out_df ::
  "string list \<Rightarrow> npfloat list \<Rightarrow> npfloat list \<Rightarrow> npfloat list \<Rightarrow>
   npfloat list \<Rightarrow> npfloat list \<Rightarrow> npfloat list \<Rightarrow> decoded_row list" where
  "out_df fs pf zf ef pr zr er =
     map (\<lambda>i. \<lparr>Term = fs ! i, pForward = pf ! i, zForward = zf ! i, effectForward = ef ! i,
                pReverse = pr ! i, zReverse = zr ! i, probReverse = er ! i\<rparr>)
       [0..<length fs]"

definition z_values :: "externals \<Rightarrow> npfloat list \<Rightarrow> npfloat list \<Rightarrow> npfloat list" where
  "z_values ext p_corr sign = map (\<lambda>(p, s). np_mul (p_to_z ext p) s) (zip p_corr sign)"

section \<open>\<open>brainmap_decode\<close>\<close>

text \<open>\<open>np.sum(np.sum(features_df))\<close>: the number of true cells of the binarized frame.\<close>

definition n_exps_across_terms :: "'id study_counts \<Rightarrow> int" where
  "n_exps_across_terms c = sum_list (map (\<lambda>(i, r). int (length (filter id r))) (features_df c))"

definition bm_p_term :: "'id study_counts \<Rightarrow> npfloat list" where
  "bm_p_term c = map (\<lambda>n. int_div n (n_exps_across_terms c)) (n_term c)"

definition n_foci_in_database :: "'id list \<Rightarrow> int" where
  "n_foci_in_database coordinates = int (length coordinates)"

text \<open>
  Line 163 divides two Python integers: \<open>brainmap_decode\<close> raises ZeroDivisionError there
  when the coordinate table is empty, and this is the quotient otherwise.
\<close>

definition p_selected :: "'id list \<Rightarrow> 'id study_counts \<Rightarrow> real" where
  "p_selected coordinates c = of_int (n_selected c) / of_int (n_foci_in_database coordinates)"

text \<open>
  The loop of lines 166 to 172. \<open>term_ids c term v\<close> is the index of the rows of the
  binarized frame whose column \<open>term\<close> is \<open>v\<close>. \<open>features_df[term]\<close> is one column only
  when no other column of the frame carries the label \<open>term\<close>; otherwise it is a frame, and
  \<open>features_df.loc\<close> of line 169 raises a ValueError. \<open>brainmap_decode\<close> below raises it
  before it uses these counts, so that \<open>term_ids\<close> is read with distinct labels only.
\<close>

definition term_ids :: "'id study_counts \<Rightarrow> string \<Rightarrow> bool \<Rightarrow> 'id list" where
  "term_ids c term v =
     map fst (filter (\<lambda>(i, r). case map_of (zip (features c) r) term of
                                   Some b \<Rightarrow> b = v
                                 | None \<Rightarrow> False) (features_df c))"

definition isin_sum :: "'id list \<Rightarrow> 'id list \<Rightarrow> int" where
  "isin_sum col vals = int (length (filter (\<lambda>x. x \<in> set vals) col))"

definition n_term_foci :: "'id list \<Rightarrow> 'id study_counts \<Rightarrow> int list" where
  "n_term_foci coordinates c = map (\<lambda>term. isin_sum coordinates (term_ids c term True)) (features c)"

definition n_noterm_foci :: "'id list \<Rightarrow> 'id study_counts \<Rightarrow> int list" where
  "n_noterm_foci coordinates c =
     map (\<lambda>term. isin_sum coordinates (term_ids c term False)) (features c)"

definition bm_p_selected_g_term :: "'id list \<Rightarrow> 'id study_counts \<Rightarrow> npfloat list" where
  "bm_p_selected_g_term coordinates c =
     map (\<lambda>(k, n). int_div k n) (zip (n_selected_term c) (n_term_foci coordinates c))"

definition l_selected_g_term :: "'id list \<Rightarrow> 'id study_counts \<Rightarrow> npfloat list" where
  "l_selected_g_term coordinates c =
     map (\<lambda>x. np_div x (Fin (p_selected coordinates c))) (bm_p_selected_g_term coordinates c)"

definition bm_p_selected_g_noterm :: "'id list \<Rightarrow> 'id study_counts \<Rightarrow> npfloat list" where
  "bm_p_selected_g_noterm coordinates c =
     map (\<lambda>(k, n). int_div k n) (zip (n_selected_noterm c) (n_noterm_foci coordinates c))"

text \<open>Line 178, and line 179 which assigns the same variable again.\<close>

definition p_term_g_selected_unnorm :: "'id list \<Rightarrow> 'id study_counts \<Rightarrow> npfloat list" where
  "p_term_g_selected_unnorm coordinates c =
     map (\<lambda>(x, pt). np_div (np_mul x pt) (Fin (p_selected coordinates c)))
       (zip (bm_p_selected_g_term coordinates c) (bm_p_term c))"

definition p_term_g_selected :: "'id list \<Rightarrow> 'id study_counts \<Rightarrow> npfloat list" where
  "p_term_g_selected coordinates c =
     map (\<lambda>x. np_div x (np_sum (p_term_g_selected_unnorm coordinates c)))
       (p_term_g_selected_unnorm coordinates c)"

text \<open>
  \<open>scipy.stats.binom.cdf(k, n, p)\<close>: the probability of at most \<open>k\<close> successes in \<open>n\<close>
  trials, NaN when the parameters are not those of a binomial distribution.
\<close>

definition binom_pmf :: "nat \<Rightarrow> real \<Rightarrow> nat \<Rightarrow> real" where
  "binom_pmf n p i = of_nat (n choose i) * p ^ i * (1 - p) ^ (n - i)"

definition binom_cdf :: "int \<Rightarrow> int \<Rightarrow> real \<Rightarrow> npfloat" where
  "binom_cdf k n p =
     (if n < 0 \<or> p < 0 \<or> 1 < p then NaN
      else if k < 0 then Fin 0
      else Fin (sum_list (map (binom_pmf (nat n) p) [0..<Suc (nat k)])))"

text \<open>Line 183: the forward p-values before the rare features are dealt with.\<close>

definition p_fi_binom :: "'id list \<Rightarrow> 'id study_counts \<Rightarrow> npfloat list" where
  "p_fi_binom coordinates c =
     map (\<lambda>(k, n). np_sub (Fin 1) (binom_cdf k n (p_selected coordinates c)))
       (zip (n_selected_term c) (n_term_foci coordinates c))"

text \<open>
  Lines 187 to 190, and 288 to 291 of \<open>neurosynth_decode\<close>: the reverse p-values, in
  \<open>brainmap_decode\<close> before the rare features are dealt with.
\<close>

definition p_ri_chi2 :: "externals \<Rightarrow> 'id study_counts \<Rightarrow> npfloat list" where
  "p_ri_chi2 ext c = map (\<lambda>cell. chdtrc ext (two_way ext cell)) (cells c)"

definition bm_sign_ri :: "'id list \<Rightarrow> 'id study_counts \<Rightarrow> npfloat list" where
  "bm_sign_ri coordinates c =
     map (\<lambda>(a, b). np_sign (np_sub a b))
       (zip (bm_p_selected_g_term coordinates c) (bm_p_selected_g_noterm coordinates c))"

text \<open>Lines 194 and 195: \<open>p[n_selected_term < 5] = 1.\<close>\<close>

definition ignore_rare :: "int list \<Rightarrow> npfloat list \<Rightarrow> npfloat list" where
  "ignore_rare ks p = map (\<lambda>(k, x). if k < 5 then Fin 1 else x) (zip ks p)"

definition bm_p_fi :: "'id list \<Rightarrow> 'id study_counts \<Rightarrow> npfloat list" where
  "bm_p_fi coordinates c = ignore_rare (n_selected_term c) (p_fi_binom coordinates c)"

definition bm_p_ri :: "externals \<Rightarrow> 'id study_counts \<Rightarrow> npfloat list" where
  "bm_p_ri ext c = ignore_rare (n_selected_term c) (p_ri_chi2 ext c)"

text \<open>
  The function, with the defaults of its signature: \<open>ids2=None\<close>, \<open>features=None\<close>,
  \<open>frequency_threshold=0.001\<close>, \<open>u=0.05\<close>, \<open>correction='fdr_bh'\<close>. The errors come in the
  order of the source: those of the frame and of \<open>loc\<close> (lines 140 to 144), the division
  of line 163, the ValueError of line 169 for a label that several columns of the frame
  carry, then the assembly.
\<close>

definition brainmap_decode ::
  "externals \<Rightarrow> ('id::linorder) list \<Rightarrow> 'id annotations \<Rightarrow> 'id list \<Rightarrow> 'id list option \<Rightarrow>
   string list option \<Rightarrow> real kwarg \<Rightarrow> real kwarg \<Rightarrow> string option kwarg \<Rightarrow>
   py_error + decoded_row list" where
  "brainmap_decode ext coordinates annotations ids ids2 feats frequency_threshold u correction =
     (case count_studies coordinates annotations ids ids2 feats
             (kw (1 / 1000) frequency_threshold) of
        Inl e \<Rightarrow> Inl e
      | Inr c \<Rightarrow>
          (if n_foci_in_database coordinates = 0 then Inl ZeroDivisionError
           else if \<not> distinct (df_columns annotations (features c)) then Inl (ValueError [])
           else
             (case correct ext (kw (Some ''fdr_bh'') correction) (kw (5 / 100) u)
                     (bm_p_fi coordinates c) of
                Inl e \<Rightarrow> Inl e
              | Inr p_corr_fi \<Rightarrow>
                  (case correct ext (kw (Some ''fdr_bh'') correction) (kw (5 / 100) u)
                          (bm_p_ri ext c) of
                     Inl e \<Rightarrow> Inl e
                   | Inr p_corr_ri \<Rightarrow>
                       Inr (out_df (features c)
                              p_corr_fi (z_values ext p_corr_fi (sign_fi c))
                              (l_selected_g_term coordinates c)
                              p_corr_ri (z_values ext p_corr_ri (bm_sign_ri coordinates c))
                              (p_term_g_selected coordinates c))))))"

section \<open>\<open>neurosynth_decode\<close>\<close>

definition n_noterm :: "'id study_counts \<Rightarrow> int list" where
  "n_noterm c = map (\<lambda>(a, b). a + b) (zip (n_selected_noterm c) (n_unselected_noterm c))"

definition ns_p_term :: "'id study_counts \<Rightarrow> npfloat list" where
  "ns_p_term c = map (\<lambda>(t, n). int_div t (t + n)) (zip (n_term c) (n_noterm c))"

definition ns_p_selected_g_term :: "'id study_counts \<Rightarrow> npfloat list" where
  "ns_p_selected_g_term c = map (\<lambda>(k, n). int_div k n) (zip (n_selected_term c) (n_term c))"

definition ns_p_selected_g_noterm :: "'id study_counts \<Rightarrow> npfloat list" where
  "ns_p_selected_g_noterm c =
     map (\<lambda>(k, n). int_div k n) (zip (n_selected_noterm c) (n_noterm c))"

text \<open>
  Lines 277 to 279. The parameter is a number or \<open>None\<close>; a number stands for the same
  prior for every feature.
\<close>

definition prior_used :: "'id study_counts \<Rightarrow> real option \<Rightarrow> npfloat list" where
  "prior_used c prior =
     (case prior of
        None \<Rightarrow> ns_p_term c
      | Some x \<Rightarrow> replicate (length (features c)) (Fin x))"

definition ns_p_fi :: "externals \<Rightarrow> 'id study_counts \<Rightarrow> npfloat list" where
  "ns_p_fi ext c = map (chdtrc ext) (one_way ext (n_selected_term c) (n_term c))"

definition ns_sign_ri :: "'id study_counts \<Rightarrow> npfloat list" where
  "ns_sign_ri c =
     map (\<lambda>(a, b). np_sign (np_sub a b))
       (zip (ns_p_selected_g_term c) (ns_p_selected_g_noterm c))"

text \<open>Line 310.\<close>

definition p_selected_g_term_g_prior :: "'id study_counts \<Rightarrow> real option \<Rightarrow> npfloat list" where
  "p_selected_g_term_g_prior c prior =
     map (\<lambda>(pr, (a, b)). np_add (np_mul pr a) (np_mul (np_sub (Fin 1) pr) b))
       (zip (prior_used c prior) (zip (ns_p_selected_g_term c) (ns_p_selected_g_noterm c)))"

text \<open>Line 313.\<close>

definition p_term_g_selected_g_prior :: "'id study_counts \<Rightarrow> real option \<Rightarrow> npfloat list" where
  "p_term_g_selected_g_prior c prior =
     map (\<lambda>(a, (pr, d)). np_div (np_mul a pr) d)
       (zip (ns_p_selected_g_term c)
            (zip (prior_used c prior) (p_selected_g_term_g_prior c prior)))"

text \<open>
  The function, with the defaults of its signature: \<open>ids2=None\<close>, \<open>features=None\<close>,
  \<open>frequency_threshold=0.001\<close>, \<open>prior=0.5\<close>, \<open>u=0.05\<close>, \<open>correction='fdr_bh'\<close>. It has
  no loop over the labels: a label requested twice gives two rows. The frame of line 318
  cannot be built when the vectors and the features differ in number, which is so when a
  requested label is carried by several columns of the annotations.
\<close>

definition neurosynth_decode ::
  "externals \<Rightarrow> ('id::linorder) list \<Rightarrow> 'id annotations \<Rightarrow> 'id list \<Rightarrow> 'id list option \<Rightarrow>
   string list option \<Rightarrow> real kwarg \<Rightarrow> real option kwarg \<Rightarrow> real kwarg \<Rightarrow>
   string option kwarg \<Rightarrow> py_error + decoded_row list" where
  "neurosynth_decode ext coordinates annotations ids ids2 feats frequency_threshold prior u
       correction =
     (case count_studies coordinates annotations ids ids2 feats
             (kw (1 / 1000) frequency_threshold) of
        Inl e \<Rightarrow> Inl e
      | Inr c \<Rightarrow>
          (case correct ext (kw (Some ''fdr_bh'') correction) (kw (5 / 100) u) (ns_p_fi ext c) of
             Inl e \<Rightarrow> Inl e
           | Inr p_corr_fi \<Rightarrow>
               (case correct ext (kw (Some ''fdr_bh'') correction) (kw (5 / 100) u)
                       (p_ri_chi2 ext c) of
                  Inl e \<Rightarrow> Inl e
                | Inr p_corr_ri \<Rightarrow>
                    (if length p_corr_fi \<noteq> length (features c)
                        \<or> length (df_columns annotations (features c)) \<noteq> length (features c)
                     then Inl (ValueError [])
                     else
                       Inr (out_df (features c)
                              p_corr_fi (z_values ext p_corr_fi (sign_fi c))
                              (p_selected_g_term_g_prior c (kw (Some (1 / 2)) prior))
                              p_corr_ri (z_values ext p_corr_ri (ns_sign_ri c))
                              (p_term_g_selected_g_prior c (kw (Some (1 / 2)) prior)))))))"

section \<open>Auxiliary definitions for the statements\<close>

text \<open>
  The position of voxel \<open>k\<close> among the voxels inside the mask: the row of
  \<open>p_topic_g_voxel\<close> that belongs to it.
\<close>

definition in_mask_rank :: "real list \<Rightarrow> nat \<Rightarrow> nat" where
  "in_mask_rank mask_data k = length (filter (\<lambda>x. x \<noteq> 0) (take k mask_data))"

text \<open>
  Concrete inputs at which the theorems below are evaluated: two affines, a loader that
  finds no file, and a model with three voxels of which the last two are inside the mask,
  two topics and one word.
\<close>

definition eye4 :: "npfloat list list" where
  "eye4 = [[Fin 1, Fin 0, Fin 0, Fin 0], [Fin 0, Fin 1, Fin 0, Fin 0],
           [Fin 0, Fin 0, Fin 1, Fin 0], [Fin 0, Fin 0, Fin 0, Fin 1]]"

definition shifted4 :: "npfloat list list" where
  "shifted4 = [[Fin 1, Fin 0, Fin 0, Fin 2], [Fin 0, Fin 1, Fin 0, Fin 0],
               [Fin 0, Fin 0, Fin 1, Fin 0], [Fin 0, Fin 0, Fin 0, Fin 1]]"

definition no_load :: "string \<Rightarrow> py_error + nifti" where
  "no_load p = Inl (IOError [])"

definition model_ex :: gclda_model where
  "model_ex = \<lparr>mask = \<lparr>affine = eye4, get_data = [0, 1, 1]\<rparr>,
               p_topic_g_voxel = \<lparr>ncols = 2, nrows_data = [[2 / 10, 8 / 10], [5 / 10, 5 / 10]]\<rparr>,
               p_word_g_topic = \<lparr>ncols = 2, nrows_data = [[1, 5 / 10]]\<rparr>,
               vocabulary = [''pain'']\<rparr>"

text \<open>
  Concrete inputs for the two study decoders: stand-ins for the functions of other modules
  (the theorems hold for any), three annotated studies of which the first two show
  \<open>pain\<close> and none shows \<open>rest\<close>, four foci, and the counts that \<open>count_studies\<close> computes
  from them when study 1 is selected; and a second annotation of the same studies, where
  the first two show \<open>pain\<close> and the first and the third show \<open>fear\<close>.
\<close>

definition ext_ex :: externals where
  "ext_ex = \<lparr>two_way = (\<lambda>cell. Fin 0), one_way = (\<lambda>d n. map (\<lambda>k. Fin 0) d),
             chdtrc = (\<lambda>x. x), multipletests = (\<lambda>p a m. p), p_to_z = (\<lambda>p. p)\<rparr>"

definition ann_ex :: "nat annotations" where
  "ann_ex = \<lparr>columns = [''id'', ''pain'', ''rest''],
             ann_rows = [(1, [(''pain'', 1), (''rest'', 0)]),
                         (2, [(''pain'', 1), (''rest'', 0)]),
                         (3, [(''pain'', 0), (''rest'', 0)])]\<rparr>"

definition coords_ex :: "nat list" where
  "coords_ex = [1, 2, 3, 3]"

definition counts_pain :: "nat study_counts" where
  "counts_pain = \<lparr>features = [''pain''],
                  features_df = [(1, [True]), (2, [True]), (3, [False])],
                  n_selected = 1, n_unselected = 2,
                  n_selected_term = [1], n_unselected_term = [1]\<rparr>"

definition ann_two :: "nat annotations" where
  "ann_two = \<lparr>columns = [''id'', ''pain'', ''fear''],
              ann_rows = [(1, [(''pain'', 1), (''fear'', 1)]),
                          (2, [(''pain'', 1), (''fear'', 0)]),
                          (3, [(''pain'', 0), (''fear'', 1)])]\<rparr>"

definition counts_two :: "nat study_counts" where
  "counts_two = \<lparr>features = [''pain'', ''fear''],
                 features_df = [(1, [True, True]), (2, [True, False]), (3, [False, True])],
                 n_selected = 1, n_unselected = 2,
                 n_selected_term = [1, 1], n_unselected_term = [1, 1]\<rparr>"

definition counts_both :: "nat study_counts" where
  "counts_both = \<lparr>features = [''pain'', ''rest''],
                  features_df = [(1, [True, False]), (2, [True, False]), (3, [False, False])],
                  n_selected = 1, n_unselected = 2,
                  n_selected_term = [1, 0], n_unselected_term = [1, 0]\<rparr>"

section \<open>Properties of \<open>gclda_decode_roi\<close>\<close>

lemmas gclda_eval =
  gclda_decode_roi_def roi_image_def array_equal_def roi_idx_def np_where_def bool_index_def
  sum_axis0_def np_dot_def dot_def imul_def model_ex_def eye4_def shifted4_def no_load_def

lemma np_where_Cons: "np_where (x # xs) = (if x then [0] else []) @ map Suc (np_where xs)"
proof -
  have "[0..<Suc (length xs)] = 0 # map Suc [0..<length xs]"
    by (simp add: upt_conv_Cons map_Suc_upt del: upt_Suc)
  then show ?thesis
    by (simp add: np_where_def filter_map comp_def del: upt_Suc)
qed

lemma filter_upt_Suc_shift:
  "filter P [0..<Suc n] = (if P 0 then [0] else []) @ map Suc (filter (\<lambda>k. P (Suc k)) [0..<n])"
proof -
  have "[0..<Suc n] = 0 # map Suc [0..<n]"
    by (simp add: upt_conv_Cons map_Suc_upt del: upt_Suc)
  then show ?thesis
    by (simp add: filter_map comp_def del: upt_Suc)
qed

lemma bool_index_Cons:
  "bool_index (r # rs) (True # ms) = r # bool_index rs ms"
  "bool_index (r # rs) (False # ms) = bool_index rs ms"
  by (simp_all add: bool_index_def)

lemma np_where_bool_index:
  "length rv = length mv \<Longrightarrow>
   np_where (bool_index rv mv) =
     map (\<lambda>k. length (filter id (take k mv))) (filter (\<lambda>k. mv ! k \<and> rv ! k) [0..<length mv])"
proof (induction rv mv rule: list_induct2)
  case Nil
  then show ?case by (simp add: np_where_def bool_index_def)
next
  case (Cons r rs m ms)
  show ?case
  proof (cases m)
    case True
    then show ?thesis
      using Cons.IH
      by (simp add: bool_index_Cons np_where_Cons filter_upt_Suc_shift comp_def del: upt_Suc)
  next
    case False
    then show ?thesis
      using Cons.IH
      by (simp add: bool_index_Cons filter_upt_Suc_shift comp_def del: upt_Suc)
  qed
qed

lemma roi_idx_char:
  assumes "length roi_data = length mask_data"
  shows "roi_idx mask_data roi_data =
           map (in_mask_rank mask_data)
             (filter (\<lambda>k. mask_data ! k \<noteq> 0 \<and> roi_data ! k \<noteq> 0) [0..<length mask_data])"
proof -
  let ?rv = "map (\<lambda>x. x \<noteq> 0) roi_data" and ?mv = "map (\<lambda>x. x \<noteq> 0) mask_data"
  have "roi_idx mask_data roi_data =
          map (\<lambda>k. length (filter id (take k ?mv))) (filter (\<lambda>k. ?mv ! k \<and> ?rv ! k) [0..<length ?mv])"
    unfolding roi_idx_def using assms by (intro np_where_bool_index) simp
  also have "filter (\<lambda>k. ?mv ! k \<and> ?rv ! k) [0..<length ?mv] =
             filter (\<lambda>k. mask_data ! k \<noteq> 0 \<and> roi_data ! k \<noteq> 0) [0..<length mask_data]"
    using assms by (auto intro!: filter_cong)
  also have "(\<lambda>k. length (filter id (take k ?mv))) = in_mask_rank mask_data"
    by (auto simp: in_mask_rank_def take_map filter_map comp_def)
  finally show ?thesis .
qed

lemma sum_axis0_Nil: "sum_axis0 n [] = replicate n 0"
  by (simp add: sum_axis0_def map_replicate_const)

lemma dot_zeros: "dot r (replicate n 0) = 0"
proof (induction r arbitrary: n)
  case Nil
  then show ?case by (simp add: dot_def)
next
  case (Cons a r)
  then show ?case by (cases n) (simp_all add: dot_def)
qed

lemma np_eq_imp_eq: "np_eq x y \<Longrightarrow> x = y"
  by (cases x; cases y) simp_all

lemma list_all2_np_eq_imp_eq: "list_all2 np_eq r s \<Longrightarrow> r = s"
  by (induction rule: list_all2_induct) (simp_all add: np_eq_imp_eq)

lemma array_equal_imp_eq: "array_equal a b \<Longrightarrow> a = b"
  unfolding array_equal_def
  by (induction rule: list_all2_induct) (simp_all add: list_all2_np_eq_imp_eq)

text \<open>
  Claim C5. Whenever the affine of the ROI image differs from the affine of the model's mask,
  \<open>gclda_decode_roi\<close> fails with the ValueError of line 87, whatever the data of the image,
  the matrices of the model and the priors are: the check comes before every computation on
  them, also before those that would fail on their own.
\<close>

theorem gclda_affine_mismatch:
  assumes "roi_image load roi = Inr img"
      and "affine img \<noteq> affine (mask model)"
  shows "gclda_decode_roi load weight_priors model roi topic_priors prior_weight =
           Inl (ValueError ''Input roi must have same affine as mask img'')"
proof -
  have "\<not> array_equal (affine img) (affine (mask model))"
    using assms(2) array_equal_imp_eq by blast
  then show ?thesis
    using assms(1) by (simp add: gclda_decode_roi_def)
qed

theorem gclda_affine_mismatch_witness:
  "roi_image no_load (RoiImage \<lparr>affine = shifted4, get_data = [1, 1]\<rparr>)
     = Inr \<lparr>affine = shifted4, get_data = [1, 1]\<rparr>
   \<and> affine \<lparr>affine = shifted4, get_data = [1, 1]\<rparr> \<noteq> affine (mask model_ex)
   \<and> gclda_decode_roi no_load (\<lambda>pr w. pr) model_ex
        (RoiImage \<lparr>affine = shifted4, get_data = [1, 1]\<rparr>) (Some [1, 1, 1]) 1
      = Inl (ValueError ''Input roi must have same affine as mask img'')"
proof -
  have a: "roi_image no_load (RoiImage \<lparr>affine = shifted4, get_data = [1, 1]\<rparr>)
     = Inr \<lparr>affine = shifted4, get_data = [1, 1]\<rparr>"
    by (simp add: roi_image_def)
  have b: "affine \<lparr>affine = shifted4, get_data = [1, 1]\<rparr> \<noteq> affine (mask model_ex)"
    by (simp add: model_ex_def shifted4_def eye4_def)
  show ?thesis
    using a b gclda_affine_mismatch [OF a b] by simp
qed



text \<open>
  Claim C10. The topic weights of a successful call are the column sums of the rows of the
  voxels that are both inside the mask and inside the ROI, so the ROI's voxels outside the
  mask play no part; and an ROI (of the mask's affine and size, on a model whose matrices
  fit) whose nonzero voxels all lie outside the mask gives topic weights and term weights
  that are all zero, not an error.
\<close>

theorem gclda_outside_mask:
  assumes img: "roi_image load roi = Inr img"
  shows "(\<forall>decoded_df tw.
            gclda_decode_roi load weight_priors model roi None prior_weight = Inr (decoded_df, tw) \<longrightarrow>
            tw = sum_axis0 (ncols (p_topic_g_voxel model))
                   (map (\<lambda>k. nrows_data (p_topic_g_voxel model) ! in_mask_rank (get_data (mask model)) k)
                      (filter (\<lambda>k. get_data (mask model) ! k \<noteq> 0 \<and> get_data img ! k \<noteq> 0)
                         [0..<length (get_data (mask model))])))
       \<and> (array_equal (affine img) (affine (mask model))
            \<and> length (get_data img) = length (get_data (mask model))
            \<and> (\<forall>k < length (get_data img). get_data img ! k \<noteq> 0 \<longrightarrow> get_data (mask model) ! k = 0)
            \<and> ncols (p_word_g_topic model) = ncols (p_topic_g_voxel model)
            \<and> length (vocabulary model) = length (nrows_data (p_word_g_topic model))
          \<longrightarrow> gclda_decode_roi load weight_priors model roi None prior_weight =
                Inr (zip (vocabulary model) (replicate (length (vocabulary model)) 0),
                     replicate (ncols (p_topic_g_voxel model)) 0))"
proof (intro conjI allI impI)
  fix decoded_df tw
  assume res: "gclda_decode_roi load weight_priors model roi None prior_weight = Inr (decoded_df, tw)"
  have len: "length (get_data img) = length (get_data (mask model))"
    using res img by (auto simp: gclda_decode_roi_def split: if_splits)
  have "tw = sum_axis0 (ncols (p_topic_g_voxel model))
                (map (\<lambda>i. nrows_data (p_topic_g_voxel model) ! i)
                   (roi_idx (get_data (mask model)) (get_data img)))"
    using res img
    by (auto simp: gclda_decode_roi_def np_dot_def Let_def split: if_splits sum.splits)
  then show "tw = sum_axis0 (ncols (p_topic_g_voxel model))
                   (map (\<lambda>k. nrows_data (p_topic_g_voxel model) ! in_mask_rank (get_data (mask model)) k)
                      (filter (\<lambda>k. get_data (mask model) ! k \<noteq> 0 \<and> get_data img ! k \<noteq> 0)
                         [0..<length (get_data (mask model))]))"
    by (simp add: roi_idx_char [OF len] comp_def)
next
  assume h: "array_equal (affine img) (affine (mask model))
            \<and> length (get_data img) = length (get_data (mask model))
            \<and> (\<forall>k < length (get_data img). get_data img ! k \<noteq> 0 \<longrightarrow> get_data (mask model) ! k = 0)
            \<and> ncols (p_word_g_topic model) = ncols (p_topic_g_voxel model)
            \<and> length (vocabulary model) = length (nrows_data (p_word_g_topic model))"
  then have len: "length (get_data img) = length (get_data (mask model))" by simp
  have "filter (\<lambda>k. get_data (mask model) ! k \<noteq> 0 \<and> get_data img ! k \<noteq> 0)
          [0..<length (get_data (mask model))] = []"
    using h by (auto simp: filter_empty_conv)
  then have idx: "roi_idx (get_data (mask model)) (get_data img) = []"
    by (simp add: roi_idx_char [OF len])
  have ww: "map (\<lambda>r. dot r (replicate (ncols (p_topic_g_voxel model)) 0))
              (nrows_data (p_word_g_topic model))
            = replicate (length (vocabulary model)) 0"
    using h by (simp add: dot_zeros map_replicate_const)
  show "gclda_decode_roi load weight_priors model roi None prior_weight =
                Inr (zip (vocabulary model) (replicate (length (vocabulary model)) 0),
                     replicate (ncols (p_topic_g_voxel model)) 0)"
    using h img by (simp add: gclda_decode_roi_def idx sum_axis0_Nil np_dot_def ww)
qed

theorem gclda_outside_mask_witness:
  "roi_image no_load (RoiImage \<lparr>affine = eye4, get_data = [1, 0, 0]\<rparr>)
     = Inr \<lparr>affine = eye4, get_data = [1, 0, 0]\<rparr>
   \<and> array_equal eye4 (affine (mask model_ex))
   \<and> get_data (mask model_ex) ! 0 = 0
   \<and> gclda_decode_roi no_load (\<lambda>pr w. pr) model_ex
        (RoiImage \<lparr>affine = eye4, get_data = [1, 0, 0]\<rparr>) None 1
      = Inr ([(''pain'', 0)], [0, 0])
   \<and> gclda_decode_roi no_load (\<lambda>pr w. pr) model_ex
        (RoiImage \<lparr>affine = eye4, get_data = [1, 1, 0]\<rparr>) None 1
      = Inr ([(''pain'', 6 / 10)], [2 / 10, 8 / 10])
   \<and> filter (\<lambda>k. get_data (mask model_ex) ! k \<noteq> 0 \<and> [1, 1, 0 :: real] ! k \<noteq> 0) [0..<3] = [1]
   \<and> in_mask_rank (get_data (mask model_ex)) 1 = 0
   \<and> [2 / 10, 8 / 10] = sum_axis0 2 [nrows_data (p_topic_g_voxel model_ex) ! 0]"
proof -
  let ?out = "\<lparr>affine = eye4, get_data = [1, 0, 0]\<rparr>"
  let ?in = "\<lparr>affine = eye4, get_data = [1, 1, 0]\<rparr>"
  have a: "roi_image no_load (RoiImage ?out) = Inr ?out"
    by (simp add: roi_image_def)
  have a': "roi_image no_load (RoiImage ?in) = Inr ?in"
    by (simp add: roi_image_def)
  have b: "array_equal eye4 (affine (mask model_ex))"
    by (simp add: model_ex_def eye4_def array_equal_def)
  have c: "\<forall>k < 3. [1, 0, 0 :: real] ! k \<noteq> 0 \<longrightarrow> get_data (mask model_ex) ! k = 0"
    by (simp add: model_ex_def less_Suc_eq numeral_3_eq_3)
  have d: "gclda_decode_roi no_load (\<lambda>pr w. pr) model_ex (RoiImage ?in) None 1
      = Inr ([(''pain'', 6 / 10)], [2 / 10, 8 / 10])"
    by (simp add: gclda_eval upt_rec)
  have e: "filter (\<lambda>k. get_data (mask model_ex) ! k \<noteq> 0 \<and> [1, 1, 0 :: real] ! k \<noteq> 0) [0..<3] = [1]"
    by (simp add: model_ex_def upt_rec)
  have f: "in_mask_rank (get_data (mask model_ex)) 1 = 0"
    by (simp add: in_mask_rank_def model_ex_def)
  have g: "gclda_decode_roi no_load (\<lambda>pr w. pr) model_ex (RoiImage ?out) None 1
      = Inr ([(''pain'', 0)], [0, 0])"
    using gclda_outside_mask [OF a, of "\<lambda>pr w. pr" model_ex 1] b c
    by (simp add: model_ex_def numeral_2_eq_2)
  have h: "[2 / 10, 8 / 10] = sum_axis0 2 [nrows_data (p_topic_g_voxel model_ex) ! 0]"
    using gclda_outside_mask [OF a', of "\<lambda>pr w. pr" model_ex 1] d e f
    by (simp add: model_ex_def)
  have c': "get_data (mask model_ex) ! 0 = 0" by (simp add: model_ex_def)
  show ?thesis using a b c' d e f g h by simp
qed

section \<open>Properties of the study counts\<close>

text \<open>
  Claim C7. With no \<open>ids2\<close>, the unselected studies of \<open>brainmap_decode\<close> and
  \<open>neurosynth_decode\<close> are the sorted list of the identifiers of the coordinate table that
  are not selected: sorted, without repetition, disjoint from the selected ones and covering
  with them every identifier of the table. With \<open>ids2\<close>, they are \<open>ids2\<close> itself.
\<close>

theorem unselected_partition:
  "unselected coordinates ids None = sorted_list_of_set (set coordinates - set ids)
   \<and> sorted (unselected coordinates ids None)
   \<and> distinct (unselected coordinates ids None)
   \<and> set ids \<inter> set (unselected coordinates ids None) = {}
   \<and> set coordinates \<subseteq> set ids \<union> set (unselected coordinates ids None)
   \<and> unselected coordinates ids (Some ids2) = ids2"
proof -
  let ?u = "unselected coordinates ids None"
  have s: "sorted ?u" by (simp add: unselected_def)
  have d: "distinct ?u" by (simp add: unselected_def dataset_ids_def)
  have e: "set ?u = set coordinates - set ids"
    by (auto simp: unselected_def dataset_ids_def)
  have "sorted_list_of_set (set ?u) = ?u"
    using s d by (rule sorted_list_of_set.idem_if_sorted_distinct)
  then have "?u = sorted_list_of_set (set coordinates - set ids)"
    using e by simp
  moreover have "unselected coordinates ids (Some ids2) = ids2"
    by (simp add: unselected_def)
  ultimately show ?thesis using s d e by auto
qed

text \<open>Both functions take the number of unselected studies from that list.\<close>

lemma count_studies_unselected:
  "count_studies coordinates annotations ids ids2 feats thr = Inr c \<Longrightarrow>
   n_selected c = int (length ids)
   \<and> n_unselected c = int (length (unselected coordinates ids ids2))"
  by (auto simp: count_studies_def Let_def split: sum.splits)

lemmas counts_eval =
  count_studies_def unselected_def dataset_ids_def resolve_features_def id_cols_def
  binarize_def count_axis0_def ann_ex_def coords_ex_def

lemma count_studies_pain:
  "count_studies coords_ex ann_ex [1] None (Some [''pain'']) (1 / 1000) = Inr counts_pain"
  by (simp add: counts_eval counts_pain_def upt_rec)

lemma count_studies_two:
  "count_studies coords_ex ann_two [1] None None (1 / 1000) = Inr counts_two"
  by (simp add: count_studies_def unselected_def dataset_ids_def resolve_features_def
        id_cols_def binarize_def count_axis0_def ann_two_def coords_ex_def counts_two_def
        upt_rec)

lemma count_studies_both:
  "count_studies coords_ex ann_ex [1] None None (1 / 1000) = Inr counts_both"
  by (simp add: counts_eval counts_both_def upt_rec)

lemma count_studies_lengths:
  assumes "count_studies coordinates annotations ids ids2 feats thr = Inr c"
  shows "length (n_selected_term c) = length (features c)"
    and "length (n_unselected_term c) = length (features c)"
  using assms
  by (auto simp: count_studies_def Let_def count_axis0_def split: sum.splits)

lemma count_studies_nonneg:
  assumes "count_studies coordinates annotations ids ids2 feats thr = Inr c"
  shows "\<forall>k \<in> set (n_selected_term c). 0 \<le> k"
  using assms
  by (auto simp: count_studies_def Let_def count_axis0_def split: sum.splits)

lemma length_n_term_foci: "length (n_term_foci coordinates c) = length (features c)"
  by (simp add: n_term_foci_def)

lemma n_term_foci_nonneg: "\<forall>n \<in> set (n_term_foci coordinates c). 0 \<le> n"
  by (auto simp: n_term_foci_def isin_sum_def)

lemma length_p_fi_binom:
  "length (n_selected_term c) = length (features c) \<Longrightarrow>
   length (p_fi_binom coordinates c) = length (features c)"
  by (simp add: p_fi_binom_def length_n_term_foci)

lemma length_cells:
  "length (n_selected_term c) = length (features c) \<Longrightarrow>
   length (n_unselected_term c) = length (features c) \<Longrightarrow>
   length (cells c) = length (features c)"
  by (simp add: cells_def n_selected_noterm_def n_unselected_noterm_def)

lemma ignore_rare_nth:
  "length ks = length p \<Longrightarrow> i < length p \<Longrightarrow>
   ignore_rare ks p ! i = (if ks ! i < 5 then Fin 1 else p ! i)"
  by (simp add: ignore_rare_def)

lemma length_ignore_rare: "length ks = length p \<Longrightarrow> length (ignore_rare ks p) = length p"
  by (simp add: ignore_rare_def)

lemma correct_length: "correct ext correction u p = Inr q \<Longrightarrow> length q = length p"
  by (auto simp: correct_def Let_def split: option.splits if_splits)

lemma map_nth_upt: "length xs = n \<Longrightarrow> map (\<lambda>i. xs ! i) [0..<n] = xs"
  using map_nth [of xs] by simp

lemma out_df_columns:
  assumes "length pf = length fs" "length zf = length fs" "length ef = length fs"
          "length pr = length fs" "length zr = length fs" "length er = length fs"
  shows "map pForward (out_df fs pf zf ef pr zr er) = pf"
    and "map effectForward (out_df fs pf zf ef pr zr er) = ef"
    and "map pReverse (out_df fs pf zf ef pr zr er) = pr"
    and "map probReverse (out_df fs pf zf ef pr zr er) = er"
  using assms by (simp_all add: out_df_def comp_def map_nth_upt)

lemma length_out_df: "length (out_df fs pf zf ef pr zr er) = length fs"
  by (simp add: out_df_def)

lemma out_df_nth:
  "i < length fs \<Longrightarrow>
   effectForward (out_df fs pf zf ef pr zr er ! i) = ef ! i
   \<and> probReverse (out_df fs pf zf ef pr zr er ! i) = er ! i
   \<and> pForward (out_df fs pf zf ef pr zr er ! i) = pf ! i
   \<and> pReverse (out_df fs pf zf ef pr zr er ! i) = pr ! i"
  by (simp add: out_df_def)

text \<open>What a successful call of \<open>brainmap_decode\<close> returns, in terms of its local variables.\<close>

lemma brainmap_decode_Inr:
  assumes cs: "count_studies coordinates annotations ids ids2 feats (kw (1 / 1000) thr) = Inr c"
      and res: "brainmap_decode ext coordinates annotations ids ids2 feats thr u correction = Inr tbl"
  shows "\<exists>p_corr_fi p_corr_ri.
           coordinates \<noteq> []
           \<and> correct ext (kw (Some ''fdr_bh'') correction) (kw (5 / 100) u)
               (bm_p_fi coordinates c) = Inr p_corr_fi
           \<and> correct ext (kw (Some ''fdr_bh'') correction) (kw (5 / 100) u)
               (bm_p_ri ext c) = Inr p_corr_ri
           \<and> tbl = out_df (features c)
                     p_corr_fi (z_values ext p_corr_fi (sign_fi c))
                     (l_selected_g_term coordinates c)
                     p_corr_ri (z_values ext p_corr_ri (bm_sign_ri coordinates c))
                     (p_term_g_selected coordinates c)"
  using res cs
  by (auto simp: brainmap_decode_def n_foci_in_database_def split: sum.splits if_splits)

section \<open>Properties of \<open>brainmap_decode\<close>\<close>

lemma binom_pmf_total: "(\<Sum>j\<le>n. binom_pmf n p j) = 1"
proof -
  have "(p + (1 - p)) ^ n = (\<Sum>j\<le>n. binom_pmf n p j)"
    unfolding binom_pmf_def by (rule binomial_ring)
  then show ?thesis by simp
qed

lemma binom_pmf_beyond: "n < j \<Longrightarrow> binom_pmf n p j = 0"
  by (simp add: binom_pmf_def)

lemma binom_upper_tail:
  "(\<Sum>j\<le>k. binom_pmf n p j) = 1 - (\<Sum>j\<in>{k<..n}. binom_pmf n p j)"
proof (cases "k \<le> n")
  case True
  have "{..n} = {..k} \<union> {k<..n}" using True by auto
  moreover have "{..k} \<inter> {k<..n} = {}" by auto
  ultimately have "(\<Sum>j\<le>n. binom_pmf n p j) =
                   (\<Sum>j\<le>k. binom_pmf n p j) + (\<Sum>j\<in>{k<..n}. binom_pmf n p j)"
    by (simp add: sum.union_disjoint)
  then show ?thesis using binom_pmf_total [where n = n and p = p] by simp
next
  case False
  then have "{..k} = {..n} \<union> {n<..k}" by auto
  moreover have "{..n} \<inter> {n<..k} = {}" by auto
  ultimately have "(\<Sum>j\<le>k. binom_pmf n p j) =
                   (\<Sum>j\<le>n. binom_pmf n p j) + (\<Sum>j\<in>{n<..k}. binom_pmf n p j)"
    by (simp add: sum.union_disjoint)
  moreover have "(\<Sum>j\<in>{n<..k}. binom_pmf n p j) = 0"
    by (rule sum.neutral) (simp add: binom_pmf_beyond)
  moreover have "{k<..n} = {}" using False by auto
  ultimately show ?thesis using binom_pmf_total [where n = n and p = p] by simp
qed

lemma sum_list_upt_atMost: "sum_list (map f [0..<Suc k]) = (\<Sum>j\<le>k. f j)"
proof -
  have "sum_list (map f [0..<Suc k]) = sum f (set [0..<Suc k])"
    by (rule sum_list_distinct_conv_sum_set) simp
  also have "set [0..<Suc k] = {..k}" by auto
  finally show ?thesis .
qed

lemma binom_cdf_upper_tail:
  assumes "0 \<le> k" "0 \<le> n" "0 \<le> p" "p \<le> 1"
  shows "np_sub (Fin 1) (binom_cdf k n p) = Fin (\<Sum>j\<in>{nat k<..nat n}. binom_pmf (nat n) p j)"
proof -
  have "binom_cdf k n p = Fin (\<Sum>j\<le>nat k. binom_pmf (nat n) p j)"
    using assms unfolding binom_cdf_def by (simp only: sum_list_upt_atMost) simp
  then show ?thesis
    by (simp add: np_sub_def binom_upper_tail [where k = "nat k" and n = "nat n" and p = p])
qed

text \<open>
  Claim C1, amended. For every feature, the forward p-value of line 183, before the rare
  features are suppressed and before the correction, is one minus the binomial distribution
  function at \<open>n_selected_term\<close> itself (not at \<open>n_selected_term - 1\<close>), with
  \<open>n_term_foci\<close> trials and success probability \<open>p_selected = n_selected /
  n_foci_in_database\<close>: the probability of strictly more than \<open>n_selected_term\<close> successes.
\<close>

theorem brainmap_forward_binomial:
  assumes cs: "count_studies coordinates annotations ids ids2 feats thr = Inr c"
      and i: "i < length (features c)"
      and ne: "coordinates \<noteq> []"
      and le: "length ids \<le> length coordinates"
  shows "p_fi_binom coordinates c ! i =
           np_sub (Fin 1) (binom_cdf (n_selected_term c ! i) (n_term_foci coordinates c ! i)
                             (p_selected coordinates c))
         \<and> p_fi_binom coordinates c ! i =
           Fin (\<Sum>j\<in>{nat (n_selected_term c ! i)<..nat (n_term_foci coordinates c ! i)}.
                  binom_pmf (nat (n_term_foci coordinates c ! i)) (p_selected coordinates c) j)"
proof -
  have len: "length (n_selected_term c) = length (features c)"
    using cs by (rule count_studies_lengths)
  have nth: "p_fi_binom coordinates c ! i =
           np_sub (Fin 1) (binom_cdf (n_selected_term c ! i) (n_term_foci coordinates c ! i)
                             (p_selected coordinates c))"
    using i len by (simp add: p_fi_binom_def length_n_term_foci)
  have k: "0 \<le> n_selected_term c ! i"
    using count_studies_nonneg [OF cs] i len by (metis nth_mem)
  have n: "0 \<le> n_term_foci coordinates c ! i"
    using n_term_foci_nonneg [of coordinates c] i length_n_term_foci [of coordinates c]
    by (metis nth_mem)
  have sel: "n_selected c = int (length ids)"
    using cs by (auto simp: count_studies_def Let_def split: sum.splits)
  have p0: "0 \<le> p_selected coordinates c"
    by (simp add: p_selected_def n_foci_in_database_def sel)
  have p1: "p_selected coordinates c \<le> 1"
    using ne le by (simp add: p_selected_def n_foci_in_database_def sel)
  show ?thesis
    using nth binom_cdf_upper_tail [OF k n p0 p1] by simp
qed

lemmas brainmap_eval =
  n_term_foci_def term_ids_def isin_sum_def p_selected_def n_foci_in_database_def
  p_fi_binom_def binom_cdf_def binom_pmf_def np_sub_def coords_ex_def

lemma n_term_foci_pain: "n_term_foci coords_ex counts_pain = [2]"
  by (simp add: brainmap_eval counts_pain_def)

lemma p_selected_pain: "p_selected coords_ex counts_pain = 1 / 4"
  by (simp add: brainmap_eval counts_pain_def)

lemma binom_cdf_1_2: "binom_cdf 1 2 (1 / 4) = Fin (15 / 16)"
proof -
  have "(2::nat) choose 1 = 2" by (simp add: numeral_2_eq_2)
  then show ?thesis
    by (simp add: binom_cdf_def binom_pmf_def upt_rec power2_eq_square)
qed

lemma p_fi_binom_pain: "p_fi_binom coords_ex counts_pain = [Fin (1 / 16)]"
  unfolding p_fi_binom_def n_term_foci_pain p_selected_pain
  by (simp add: counts_pain_def binom_cdf_1_2 np_sub_def)

theorem brainmap_forward_binomial_witness:
  "count_studies coords_ex ann_ex [1] None (Some [''pain'']) (1 / 1000) = Inr counts_pain
   \<and> (0::nat) < length (features counts_pain)
   \<and> coords_ex \<noteq> []
   \<and> length [1::nat] \<le> length coords_ex
   \<and> p_fi_binom coords_ex counts_pain ! 0 = Fin (\<Sum>j\<in>{1<..2}. binom_pmf 2 (1 / 4) j)
   \<and> p_fi_binom coords_ex counts_pain ! 0 = Fin (1 / 16)"
proof -
  have i: "(0::nat) < length (features counts_pain)" by (simp add: counts_pain_def)
  have ne: "coords_ex \<noteq> []" by (simp add: coords_ex_def)
  have le: "length [1::nat] \<le> length coords_ex" by (simp add: coords_ex_def)
  have k: "n_selected_term counts_pain ! 0 = 1" by (simp add: counts_pain_def)
  have n: "n_term_foci coords_ex counts_pain ! 0 = 2" by (simp add: n_term_foci_pain)
  have t: "p_fi_binom coords_ex counts_pain ! 0 = Fin (\<Sum>j\<in>{1<..2}. binom_pmf 2 (1 / 4) j)"
    using brainmap_forward_binomial [OF count_studies_pain i ne le, THEN conjunct2]
    unfolding k n p_selected_pain by simp
  show ?thesis
    using count_studies_pain i ne le t by (simp add: p_fi_binom_pain)
qed

text \<open>
  Claim C1 as stated fails: with one selected study out of four foci, a feature shown by the
  selected study and by one more study with two foci in all has the p-value \<open>1/16\<close>, the
  probability of two successes, where the claim's formula gives \<open>7/16\<close>, the probability of
  at least one.
\<close>

theorem brainmap_forward_binomial_counterexample:
  "count_studies coords_ex ann_ex [1] None (Some [''pain'']) (1 / 1000) = Inr counts_pain
   \<and> n_selected_term counts_pain = [1]
   \<and> n_term_foci coords_ex counts_pain = [2]
   \<and> p_selected coords_ex counts_pain = 1 / 4
   \<and> p_fi_binom coords_ex counts_pain = [Fin (1 / 16)]
   \<and> np_sub (Fin 1) (binom_cdf (1 - 1) 2 (1 / 4)) = Fin (7 / 16)"
proof -
  have d: "binom_cdf 0 2 (1 / 4) = Fin (9 / 16)"
    by (simp add: binom_cdf_def binom_pmf_def upt_rec power2_eq_square)
  show ?thesis
    using count_studies_pain n_term_foci_pain p_selected_pain p_fi_binom_pain d
    by (simp add: counts_pain_def np_sub_def)
qed

lemmas decode_eval =
  brainmap_eval n_noterm_foci_def n_selected_noterm_def n_unselected_noterm_def n_term_def
  n_exps_across_terms_def bm_p_term_def int_div_def bm_p_selected_g_term_def
  l_selected_g_term_def bm_p_selected_g_noterm_def p_term_g_selected_unnorm_def
  p_term_g_selected_def np_sum_def inf_of_sign_def p_ri_chi2_def cells_def bm_sign_ri_def
  ignore_rare_def bm_p_fi_def bm_p_ri_def sign_fi_def np_mean_def correct_def z_values_def
  out_df_def ext_ex_def df_columns_def ann_ex_def

lemma kw_thr: "kw (1 / 1000) Omitted = (1 / 1000 :: real)"
  by simp

lemma brainmap_decode_pain:
  "brainmap_decode ext_ex coords_ex ann_ex [1] None (Some [''pain'']) Omitted Omitted Omitted =
     Inr [\<lparr>Term = ''pain'', pForward = Fin 1, zForward = Fin 0, effectForward = Fin 2,
           pReverse = Fin 1, zReverse = Fin 1, probReverse = Fin 1\<rparr>]"
  unfolding brainmap_decode_def kw_thr count_studies_pain
  by (simp add: decode_eval counts_pain_def upt_rec)

lemma brainmap_decode_both:
  "brainmap_decode ext_ex coords_ex ann_ex [1] None None Omitted Omitted Omitted =
     Inr [\<lparr>Term = ''pain'', pForward = Fin 1, zForward = Fin 1, effectForward = Fin 2,
           pReverse = Fin 1, zReverse = Fin 1, probReverse = NaN\<rparr>,
          \<lparr>Term = ''rest'', pForward = Fin 1, zForward = Fin (- 1), effectForward = NaN,
           pReverse = Fin 1, zReverse = NaN, probReverse = NaN\<rparr>]"
  unfolding brainmap_decode_def kw_thr count_studies_both
  by (simp add: decode_eval counts_both_def upt_rec)

lemma brainmap_decode_no_foci:
  "brainmap_decode ext_ex [] ann_ex [1] None None Omitted Omitted Omitted = Inl ZeroDivisionError"
  by (simp add: brainmap_decode_def count_studies_def unselected_def dataset_ids_def
        resolve_features_def id_cols_def binarize_def ann_ex_def n_foci_in_database_def)

text \<open>
  Claim C3. For a feature with \<open>n_selected_term < 5\<close>, lines 194 and 195 set the forward and
  the reverse p-value to exactly 1. They overwrite the binomial and chi-square p-values
  computed before, and the vectors so changed are the ones the correction receives: the
  columns \<open>pForward\<close> and \<open>pReverse\<close> of the result are the correction of them.
\<close>

theorem brainmap_rare_features:
  assumes cs: "count_studies coordinates annotations ids ids2 feats (kw (1 / 1000) thr) = Inr c"
      and res: "brainmap_decode ext coordinates annotations ids ids2 feats thr u correction = Inr tbl"
      and i: "i < length (features c)"
      and rare: "n_selected_term c ! i < 5"
  shows "bm_p_fi coordinates c ! i = Fin 1
         \<and> bm_p_ri ext c ! i = Fin 1
         \<and> bm_p_fi coordinates c = ignore_rare (n_selected_term c) (p_fi_binom coordinates c)
         \<and> bm_p_ri ext c = ignore_rare (n_selected_term c) (p_ri_chi2 ext c)
         \<and> correct ext (kw (Some ''fdr_bh'') correction) (kw (5 / 100) u) (bm_p_fi coordinates c)
             = Inr (map pForward tbl)
         \<and> correct ext (kw (Some ''fdr_bh'') correction) (kw (5 / 100) u) (bm_p_ri ext c)
             = Inr (map pReverse tbl)"
proof -
  note len = count_studies_lengths [OF cs]
  have lf: "length (p_fi_binom coordinates c) = length (features c)"
    using len by (simp add: length_p_fi_binom)
  have lr: "length (p_ri_chi2 ext c) = length (features c)"
    using len by (simp add: p_ri_chi2_def length_cells)
  have f: "bm_p_fi coordinates c ! i = Fin 1"
    using i rare len lf by (simp add: bm_p_fi_def ignore_rare_nth)
  have r: "bm_p_ri ext c ! i = Fin 1"
    using i rare len lr by (simp add: bm_p_ri_def ignore_rare_nth)
  obtain p_corr_fi p_corr_ri where
    cf: "correct ext (kw (Some ''fdr_bh'') correction) (kw (5 / 100) u) (bm_p_fi coordinates c)
           = Inr p_corr_fi" and
    cr: "correct ext (kw (Some ''fdr_bh'') correction) (kw (5 / 100) u) (bm_p_ri ext c)
           = Inr p_corr_ri" and
    tbl: "tbl = out_df (features c)
                     p_corr_fi (z_values ext p_corr_fi (sign_fi c))
                     (l_selected_g_term coordinates c)
                     p_corr_ri (z_values ext p_corr_ri (bm_sign_ri coordinates c))
                     (p_term_g_selected coordinates c)"
    using brainmap_decode_Inr [OF cs res] by blast
  have lcf: "length p_corr_fi = length (features c)"
    using correct_length [OF cf] len lf by (simp add: bm_p_fi_def length_ignore_rare)
  have lcr: "length p_corr_ri = length (features c)"
    using correct_length [OF cr] len lr by (simp add: bm_p_ri_def length_ignore_rare)
  have pf: "map pForward tbl = p_corr_fi"
    unfolding tbl using lcf by (simp add: out_df_def comp_def map_nth_upt)
  have pr: "map pReverse tbl = p_corr_ri"
    unfolding tbl using lcr by (simp add: out_df_def comp_def map_nth_upt)
  show ?thesis
    using f r cf cr pf pr by (simp add: bm_p_fi_def bm_p_ri_def)
qed

theorem brainmap_rare_features_witness:
  "count_studies coords_ex ann_ex [1] None (Some [''pain'']) (kw (1 / 1000) Omitted)
     = Inr counts_pain
   \<and> (0::nat) < length (features counts_pain)
   \<and> n_selected_term counts_pain ! 0 < 5
   \<and> p_fi_binom coords_ex counts_pain ! 0 = Fin (1 / 16)
   \<and> bm_p_fi coords_ex counts_pain ! 0 = Fin 1
   \<and> bm_p_ri ext_ex counts_pain ! 0 = Fin 1
   \<and> correct ext_ex (Some ''fdr_bh'') (5 / 100) (bm_p_fi coords_ex counts_pain) = Inr [Fin 1]"
proof -
  have cs: "count_studies coords_ex ann_ex [1] None (Some [''pain'']) (kw (1 / 1000) Omitted)
              = Inr counts_pain"
    using count_studies_pain by simp
  have i: "(0::nat) < length (features counts_pain)" by (simp add: counts_pain_def)
  have rare: "n_selected_term counts_pain ! 0 < 5" by (simp add: counts_pain_def)
  have raw: "p_fi_binom coords_ex counts_pain ! 0 = Fin (1 / 16)"
    by (simp add: p_fi_binom_pain)
  note th = brainmap_rare_features [OF cs brainmap_decode_pain i rare]
  have f: "bm_p_fi coords_ex counts_pain ! 0 = Fin 1" using th by blast
  have r: "bm_p_ri ext_ex counts_pain ! 0 = Fin 1" using th by blast
  have "correct ext_ex (kw (Some ''fdr_bh'') Omitted) (kw (5 / 100) Omitted)
          (bm_p_fi coords_ex counts_pain)
        = Inr (map pForward [\<lparr>Term = ''pain'', pForward = Fin 1, zForward = Fin 0,
                 effectForward = Fin 2, pReverse = Fin 1, zReverse = Fin 1,
                 probReverse = Fin 1\<rparr>])"
    using th by blast
  then have c: "correct ext_ex (Some ''fdr_bh'') (5 / 100) (bm_p_fi coords_ex counts_pain)
                = Inr [Fin 1]"
    by simp
  show ?thesis
    using cs i rare raw f r c by simp
qed

lemma np_sum_Fin: "np_sum (map Fin rs) = Fin (sum_list rs)"
  by (induction rs) (simp_all add: np_sum_def)

lemma all_finite_map_Fin: "\<forall>x \<in> set xs. is_finite x \<Longrightarrow> \<exists>rs. xs = map Fin rs"
proof (induction xs)
  case Nil
  then show ?case by simp
next
  case (Cons x xs)
  then obtain rs where "xs = map Fin rs" by auto
  moreover obtain r where "x = Fin r" using Cons.prems by (cases x) auto
  ultimately have "x # xs = map Fin (r # rs)" by simp
  then show ?case by (rule exI)
qed

lemma sum_list_divide: "sum_list (map (\<lambda>r. r / s) rs) = sum_list rs / (s::real)"
  by (induction rs) (simp_all add: add_divide_distrib)

lemma normalize_sums_to_one:
  assumes "\<forall>x \<in> set xs. is_finite x" and "np_sum xs \<noteq> Fin 0"
  shows "np_sum (map (\<lambda>x. np_div x (np_sum xs)) xs) = Fin 1"
proof -
  obtain rs where xs: "xs = map Fin rs" using assms(1) all_finite_map_Fin by blast
  have s: "sum_list rs \<noteq> 0" using assms(2) by (simp add: xs np_sum_Fin)
  have "map (\<lambda>x. np_div x (np_sum xs)) xs = map Fin (map (\<lambda>r. r / sum_list rs) rs)"
    using s by (simp add: xs np_sum_Fin)
  then have "np_sum (map (\<lambda>x. np_div x (np_sum xs)) xs) = Fin (sum_list rs / sum_list rs)"
    by (simp only: np_sum_Fin sum_list_divide)
  then show ?thesis using s by simp
qed

lemma unnorm_finite:
  assumes foci: "\<forall>n \<in> set (n_term_foci coordinates c). n \<noteq> 0"
      and exps: "n_exps_across_terms c \<noteq> 0"
      and sel: "p_selected coordinates c \<noteq> 0"
  shows "\<forall>x \<in> set (p_term_g_selected_unnorm coordinates c). is_finite x"
proof
  fix x assume "x \<in> set (p_term_g_selected_unnorm coordinates c)"
  then obtain a pt where x: "x = np_div (np_mul a pt) (Fin (p_selected coordinates c))"
      and a: "a \<in> set (bm_p_selected_g_term coordinates c)"
      and pt: "pt \<in> set (bm_p_term c)"
    by (auto simp: p_term_g_selected_unnorm_def dest: set_zip_leftD set_zip_rightD)
  obtain k n where "a = int_div k n" and "n \<in> set (n_term_foci coordinates c)"
    using a by (auto simp: bm_p_selected_g_term_def dest: set_zip_rightD)
  then obtain ra where ra: "a = Fin ra" using foci by (auto simp: int_div_def)
  obtain rp where rp: "pt = Fin rp" using pt exps by (auto simp: bm_p_term_def int_div_def)
  show "is_finite x" using sel by (simp add: x ra rp)
qed

text \<open>
  Claim C4. When no division made for the reverse effect has a zero denominator (no
  feature has \<open>n_term_foci = 0\<close>, \<open>n_exps_across_terms\<close> and \<open>p_selected\<close> are not zero,
  and the sum that line 179 divides by is not zero), the column \<open>probReverse\<close> of the result
  sums to 1. Finite floats are reals here, so the sum is exact.
\<close>

theorem brainmap_reverse_sums_to_one:
  assumes cs: "count_studies coordinates annotations ids ids2 feats (kw (1 / 1000) thr) = Inr c"
      and res: "brainmap_decode ext coordinates annotations ids ids2 feats thr u correction = Inr tbl"
      and foci: "\<forall>n \<in> set (n_term_foci coordinates c). n \<noteq> 0"
      and exps: "n_exps_across_terms c \<noteq> 0"
      and sel: "p_selected coordinates c \<noteq> 0"
      and total: "np_sum (p_term_g_selected_unnorm coordinates c) \<noteq> Fin 0"
  shows "np_sum (map probReverse tbl) = Fin 1"
proof -
  note len = count_studies_lengths [OF cs]
  obtain p_corr_fi p_corr_ri where
    tbl: "tbl = out_df (features c)
                     p_corr_fi (z_values ext p_corr_fi (sign_fi c))
                     (l_selected_g_term coordinates c)
                     p_corr_ri (z_values ext p_corr_ri (bm_sign_ri coordinates c))
                     (p_term_g_selected coordinates c)"
    using brainmap_decode_Inr [OF cs res] by blast
  have "length (p_term_g_selected coordinates c) = length (features c)"
    using len
    by (simp add: p_term_g_selected_def p_term_g_selected_unnorm_def bm_p_selected_g_term_def
          bm_p_term_def n_term_def length_n_term_foci)
  then have "map probReverse tbl = p_term_g_selected coordinates c"
    unfolding tbl by (simp add: out_df_def comp_def map_nth_upt)
  then show ?thesis
    using normalize_sums_to_one [OF unnorm_finite [OF foci exps sel] total]
    by (simp add: p_term_g_selected_def)
qed

lemma n_term_foci_two: "n_term_foci coords_ex counts_two = [2, 3]"
  by (simp add: brainmap_eval counts_two_def)

lemma p_selected_two: "p_selected coords_ex counts_two = 1 / 4"
  by (simp add: brainmap_eval counts_two_def)

lemma unnorm_two: "p_term_g_selected_unnorm coords_ex counts_two = [Fin 1, Fin (2 / 3)]"
  unfolding p_term_g_selected_unnorm_def bm_p_selected_g_term_def n_term_foci_two
    p_selected_two
  by (simp add: bm_p_term_def n_term_def n_exps_across_terms_def int_div_def counts_two_def)

lemma brainmap_decode_two:
  "brainmap_decode ext_ex coords_ex ann_two [1] None None Omitted Omitted Omitted =
     Inr [\<lparr>Term = ''pain'', pForward = Fin 1, zForward = Fin 0, effectForward = Fin 2,
           pReverse = Fin 1, zReverse = Fin 1, probReverse = Fin (3 / 5)\<rparr>,
          \<lparr>Term = ''fear'', pForward = Fin 1, zForward = Fin 0, effectForward = Fin (4 / 3),
           pReverse = Fin 1, zReverse = Fin 1, probReverse = Fin (2 / 5)\<rparr>]"
  unfolding brainmap_decode_def kw_thr count_studies_two
  by (simp add: decode_eval ann_two_def counts_two_def upt_rec)

theorem brainmap_reverse_sums_to_one_witness:
  "count_studies coords_ex ann_two [1] None None (kw (1 / 1000) Omitted) = Inr counts_two
   \<and> n_term_foci coords_ex counts_two = [2, 3]
   \<and> n_exps_across_terms counts_two = 4
   \<and> p_selected coords_ex counts_two = 1 / 4
   \<and> p_term_g_selected_unnorm coords_ex counts_two = [Fin 1, Fin (2 / 3)]
   \<and> np_sum (p_term_g_selected_unnorm coords_ex counts_two) = Fin (5 / 3)
   \<and> brainmap_decode ext_ex coords_ex ann_two [1] None None Omitted Omitted Omitted =
       Inr [\<lparr>Term = ''pain'', pForward = Fin 1, zForward = Fin 0, effectForward = Fin 2,
             pReverse = Fin 1, zReverse = Fin 1, probReverse = Fin (3 / 5)\<rparr>,
            \<lparr>Term = ''fear'', pForward = Fin 1, zForward = Fin 0, effectForward = Fin (4 / 3),
             pReverse = Fin 1, zReverse = Fin 1, probReverse = Fin (2 / 5)\<rparr>]
   \<and> np_sum [Fin (3 / 5), Fin (2 / 5)] = Fin 1"
proof -
  have cs: "count_studies coords_ex ann_two [1] None None (kw (1 / 1000) Omitted) = Inr counts_two"
    using count_studies_two by simp
  have foci: "\<forall>n \<in> set (n_term_foci coords_ex counts_two). n \<noteq> 0"
    by (simp add: n_term_foci_two)
  have e4: "n_exps_across_terms counts_two = 4"
    by (simp add: n_exps_across_terms_def counts_two_def)
  have exps: "n_exps_across_terms counts_two \<noteq> 0"
    by (simp add: e4)
  have sel: "p_selected coords_ex counts_two \<noteq> 0"
    by (simp add: p_selected_two)
  have s53: "np_sum (p_term_g_selected_unnorm coords_ex counts_two) = Fin (5 / 3)"
    by (simp add: unnorm_two np_sum_def)
  have total: "np_sum (p_term_g_selected_unnorm coords_ex counts_two) \<noteq> Fin 0"
    by (simp add: s53)
  have "np_sum (map probReverse
          [\<lparr>Term = ''pain'', pForward = Fin 1, zForward = Fin 0, effectForward = Fin 2,
            pReverse = Fin 1, zReverse = Fin 1, probReverse = Fin (3 / 5)\<rparr>,
           \<lparr>Term = ''fear'', pForward = Fin 1, zForward = Fin 0, effectForward = Fin (4 / 3),
            pReverse = Fin 1, zReverse = Fin 1, probReverse = Fin (2 / 5)\<rparr>]) = Fin 1"
    using brainmap_reverse_sums_to_one [OF cs brainmap_decode_two foci exps sel total] .
  then have one: "np_sum [Fin (3 / 5), Fin (2 / 5)] = Fin 1"
    by simp
  show ?thesis
    using cs n_term_foci_two e4 p_selected_two unnorm_two s53 brainmap_decode_two one
    by simp
qed

lemma correct_total:
  assumes "\<forall>p a m. length (multipletests ext p a m) = length p"
  shows "\<exists>q. correct ext correction u p = Inr q \<and> length q = length p"
  using assms by (cases correction) (simp_all add: correct_def Let_def)

lemma np_div_nonfinite: "\<not> is_finite x \<Longrightarrow> \<not> is_finite (np_div x (Fin b))"
  by (cases x) (simp_all add: inf_of_sign_def)

lemma int_div_zero_nonfinite: "\<not> is_finite (int_div k 0)"
  by (simp add: int_div_def inf_of_sign_def)

text \<open>
  Claim C6, amended. When the coordinate table is not empty, the selected and unselected
  studies and the features are found in the annotations, no label is carried by two columns
  of the binarized frame (no feature is requested twice, no two columns of the annotations
  share a requested label), and the correction returns as many p-values as it receives,
  \<open>brainmap_decode\<close> does not raise and returns one row per feature; the forward ratio of
  every feature depends on that feature's own counts only, and it is not finite (an
  infinity or NaN) for a feature with \<open>n_term_foci = 0\<close>. Nothing is said of the reverse
  effects of the other features.
\<close>

theorem brainmap_zero_foci:
  assumes cs: "count_studies coordinates annotations ids ids2 feats (kw (1 / 1000) thr) = Inr c"
      and ne: "coordinates \<noteq> []"
      and dist: "distinct (df_columns annotations (features c))"
      and mt: "\<forall>p a m. length (multipletests ext p a m) = length p"
  shows "\<exists>tbl. brainmap_decode ext coordinates annotations ids ids2 feats thr u correction = Inr tbl
           \<and> length tbl = length (features c)
           \<and> (\<forall>i < length (features c).
                 effectForward (tbl ! i) =
                   np_div (int_div (n_selected_term c ! i) (n_term_foci coordinates c ! i))
                     (Fin (p_selected coordinates c))
                 \<and> (n_term_foci coordinates c ! i = 0 \<longrightarrow> \<not> is_finite (effectForward (tbl ! i))))"
proof -
  note len = count_studies_lengths [OF cs]
  obtain p_corr_fi where
    cf: "correct ext (kw (Some ''fdr_bh'') correction) (kw (5 / 100) u) (bm_p_fi coordinates c)
           = Inr p_corr_fi"
    using correct_total [OF mt] by blast
  obtain p_corr_ri where
    cr: "correct ext (kw (Some ''fdr_bh'') correction) (kw (5 / 100) u) (bm_p_ri ext c)
           = Inr p_corr_ri"
    using correct_total [OF mt] by blast
  let ?tbl = "out_df (features c)
                p_corr_fi (z_values ext p_corr_fi (sign_fi c))
                (l_selected_g_term coordinates c)
                p_corr_ri (z_values ext p_corr_ri (bm_sign_ri coordinates c))
                (p_term_g_selected coordinates c)"
  have res: "brainmap_decode ext coordinates annotations ids ids2 feats thr u correction = Inr ?tbl"
    using cs ne dist cf cr by (simp add: brainmap_decode_def n_foci_in_database_def)
  have eff: "effectForward (?tbl ! i) =
               np_div (int_div (n_selected_term c ! i) (n_term_foci coordinates c ! i))
                 (Fin (p_selected coordinates c))"
    if "i < length (features c)" for i
    using that len
    by (simp add: out_df_nth l_selected_g_term_def bm_p_selected_g_term_def length_n_term_foci)
  have "\<not> is_finite (effectForward (?tbl ! i))"
    if "i < length (features c)" "n_term_foci coordinates c ! i = 0" for i
    using eff [OF that(1)] that(2) by (simp add: np_div_nonfinite int_div_zero_nonfinite)
  then show ?thesis
    using res eff by (intro exI [of _ ?tbl]) (simp add: length_out_df)
qed

theorem brainmap_zero_foci_witness:
  "count_studies coords_ex ann_ex [1] None None (kw (1 / 1000) Omitted) = Inr counts_both
   \<and> coords_ex \<noteq> []
   \<and> df_columns ann_ex (features counts_both) = [''pain'', ''rest'']
   \<and> length (multipletests ext_ex [Fin 1, Fin 1] (5 / 100) ''fdr_bh'') = 2
   \<and> n_term_foci coords_ex counts_both = [2, 0]
   \<and> brainmap_decode ext_ex coords_ex ann_ex [1] None None Omitted Omitted Omitted =
       Inr [\<lparr>Term = ''pain'', pForward = Fin 1, zForward = Fin 1, effectForward = Fin 2,
             pReverse = Fin 1, zReverse = Fin 1, probReverse = NaN\<rparr>,
            \<lparr>Term = ''rest'', pForward = Fin 1, zForward = Fin (- 1), effectForward = NaN,
             pReverse = Fin 1, zReverse = NaN, probReverse = NaN\<rparr>]
   \<and> \<not> is_finite NaN"
proof -
  have cs: "count_studies coords_ex ann_ex [1] None None (kw (1 / 1000) Omitted) = Inr counts_both"
    using count_studies_both by simp
  have ne: "coords_ex \<noteq> []" by (simp add: coords_ex_def)
  have mt: "\<forall>p a m. length (multipletests ext_ex p a m) = length p"
    by (simp add: ext_ex_def)
  have foci: "n_term_foci coords_ex counts_both = [2, 0]"
    by (simp add: brainmap_eval counts_both_def)
  have cols: "df_columns ann_ex (features counts_both) = [''pain'', ''rest'']"
    by (simp add: df_columns_def ann_ex_def counts_both_def)
  have dist: "distinct (df_columns ann_ex (features counts_both))"
    by (simp add: cols)
  obtain tbl where
    "brainmap_decode ext_ex coords_ex ann_ex [1] None None Omitted Omitted Omitted = Inr tbl"
    "length tbl = length (features counts_both)"
    using brainmap_zero_foci [OF cs ne dist mt, of Omitted Omitted] by blast
  then show ?thesis
    using cs ne cols foci brainmap_decode_both by (simp add: ext_ex_def)
qed

text \<open>
  Claim C6 as stated fails twice. A feature that no study with foci shows makes the sum of
  line 179 NaN, and with it the reverse effect of every other feature: \<open>pain\<close> has the
  reverse effect 1 when decoded alone and NaN when decoded together with \<open>rest\<close>. And with
  an empty coordinate table, where every feature has \<open>n_term_foci = 0\<close>, line 163 divides
  two Python integers by zero and the call raises.
\<close>

theorem brainmap_zero_foci_counterexample:
  "n_term_foci coords_ex counts_both = [2, 0]
   \<and> map_sum id (map probReverse)
        (brainmap_decode ext_ex coords_ex ann_ex [1] None None Omitted Omitted Omitted)
      = Inr [NaN, NaN]
   \<and> map_sum id (map probReverse)
        (brainmap_decode ext_ex coords_ex ann_ex [1] None (Some [''pain'']) Omitted Omitted Omitted)
      = Inr [Fin 1]
   \<and> brainmap_decode ext_ex [] ann_ex [1] None None Omitted Omitted Omitted
      = Inl ZeroDivisionError"
proof -
  have foci: "n_term_foci coords_ex counts_both = [2, 0]"
    by (simp add: brainmap_eval counts_both_def)
  show ?thesis
    using foci brainmap_decode_both brainmap_decode_pain brainmap_decode_no_foci by simp
qed

section \<open>Properties of \<open>neurosynth_decode\<close>\<close>

lemma neurosynth_decode_Inr:
  assumes cs: "count_studies coordinates annotations ids ids2 feats (kw (1 / 1000) thr) = Inr c"
      and res: "neurosynth_decode ext coordinates annotations ids ids2 feats thr prior u correction
                  = Inr tbl"
  shows "\<exists>p_corr_fi p_corr_ri.
           tbl = out_df (features c)
                   p_corr_fi (z_values ext p_corr_fi (sign_fi c))
                   (p_selected_g_term_g_prior c (kw (Some (1 / 2)) prior))
                   p_corr_ri (z_values ext p_corr_ri (ns_sign_ri c))
                   (p_term_g_selected_g_prior c (kw (Some (1 / 2)) prior))"
  using res cs
  by (auto simp: neurosynth_decode_def split: sum.splits if_splits)

lemma ns_lengths:
  assumes "length (n_selected_term c) = length (features c)"
      and "length (n_unselected_term c) = length (features c)"
  shows "length (n_term c) = length (features c)"
    and "length (n_noterm c) = length (features c)"
    and "length (ns_p_term c) = length (features c)"
    and "length (ns_p_selected_g_term c) = length (features c)"
    and "length (ns_p_selected_g_noterm c) = length (features c)"
    and "length (prior_used c prior) = length (features c)"
  using assms
  by (simp_all add: n_term_def n_noterm_def ns_p_term_def ns_p_selected_g_term_def
        ns_p_selected_g_noterm_def n_selected_noterm_def n_unselected_noterm_def
        prior_used_def split: option.splits)

lemma ns_effects_nth:
  assumes "length (n_selected_term c) = length (features c)"
      and "length (n_unselected_term c) = length (features c)"
      and "i < length (features c)"
  shows "p_selected_g_term_g_prior c prior ! i =
           np_add (np_mul (prior_used c prior ! i) (ns_p_selected_g_term c ! i))
             (np_mul (np_sub (Fin 1) (prior_used c prior ! i)) (ns_p_selected_g_noterm c ! i))"
    and "p_term_g_selected_g_prior c prior ! i =
           np_div (np_mul (ns_p_selected_g_term c ! i) (prior_used c prior ! i))
             (p_selected_g_term_g_prior c prior ! i)"
  using assms ns_lengths [OF assms(1,2)]
  by (simp_all add: p_selected_g_term_g_prior_def p_term_g_selected_g_prior_def)

lemma neurosynth_effects_none:
  assumes cs: "count_studies coordinates annotations ids ids2 feats (kw (1 / 1000) thr) = Inr c"
      and res: "neurosynth_decode ext coordinates annotations ids ids2 feats thr (Passed None) u
                  correction = Inr tbl"
      and i: "i < length (features c)"
  shows "prior_used c None ! i = int_div (n_term c ! i) (n_term c ! i + n_noterm c ! i)"
    and "effectForward (tbl ! i) =
           np_add (np_mul (prior_used c None ! i) (ns_p_selected_g_term c ! i))
             (np_mul (np_sub (Fin 1) (prior_used c None ! i)) (ns_p_selected_g_noterm c ! i))"
    and "probReverse (tbl ! i) =
           np_div (np_mul (ns_p_selected_g_term c ! i) (prior_used c None ! i))
             (effectForward (tbl ! i))"
proof -
  note len = count_studies_lengths [OF cs]
  note nl = ns_lengths [OF len]
  show "prior_used c None ! i = int_div (n_term c ! i) (n_term c ! i + n_noterm c ! i)"
    using i nl by (simp add: prior_used_def ns_p_term_def)
  obtain p_corr_fi p_corr_ri where
    tbl: "tbl = out_df (features c)
                   p_corr_fi (z_values ext p_corr_fi (sign_fi c))
                   (p_selected_g_term_g_prior c None)
                   p_corr_ri (z_values ext p_corr_ri (ns_sign_ri c))
                   (p_term_g_selected_g_prior c None)"
    using neurosynth_decode_Inr [OF cs res] by auto
  have ef: "effectForward (tbl ! i) = p_selected_g_term_g_prior c None ! i"
    and er: "probReverse (tbl ! i) = p_term_g_selected_g_prior c None ! i"
    unfolding tbl using i by (simp_all add: out_df_nth)
  show "effectForward (tbl ! i) =
           np_add (np_mul (prior_used c None ! i) (ns_p_selected_g_term c ! i))
             (np_mul (np_sub (Fin 1) (prior_used c None ! i)) (ns_p_selected_g_noterm c ! i))"
    using ef ns_effects_nth [OF len i, of None] by simp
  show "probReverse (tbl ! i) =
           np_div (np_mul (ns_p_selected_g_term c ! i) (prior_used c None ! i))
             (effectForward (tbl ! i))"
    using ef er ns_effects_nth [OF len i, of None] by simp
qed

lemmas ns_eval =
  n_selected_noterm_def n_unselected_noterm_def n_term_def n_noterm_def ns_p_term_def
  ns_p_selected_g_term_def ns_p_selected_g_noterm_def prior_used_def ns_p_fi_def ns_sign_ri_def
  p_selected_g_term_g_prior_def p_term_g_selected_g_prior_def int_div_def inf_of_sign_def
  np_sub_def p_ri_chi2_def cells_def sign_fi_def np_mean_def correct_def z_values_def
  out_df_def ext_ex_def df_columns_def ann_ex_def

lemma neurosynth_decode_default:
  "neurosynth_decode ext_ex coords_ex ann_ex [1] None (Some [''pain''])
     Omitted Omitted Omitted Omitted =
     Inr [\<lparr>Term = ''pain'', pForward = Fin 0, zForward = Fin 0, effectForward = Fin (1 / 4),
           pReverse = Fin 0, zReverse = Fin 0, probReverse = Fin 1\<rparr>]"
  unfolding neurosynth_decode_def kw_thr count_studies_pain
  by (simp add: ns_eval counts_pain_def upt_rec)

lemma neurosynth_decode_none:
  "neurosynth_decode ext_ex coords_ex ann_ex [1] None (Some [''pain''])
     Omitted (Passed None) Omitted Omitted =
     Inr [\<lparr>Term = ''pain'', pForward = Fin 0, zForward = Fin 0, effectForward = Fin (1 / 3),
           pReverse = Fin 0, zReverse = Fin 0, probReverse = Fin 1\<rparr>]"
  unfolding neurosynth_decode_def kw_thr count_studies_pain
  by (simp add: ns_eval counts_pain_def upt_rec)

lemma n_term_pain: "n_term counts_pain = [2]"
  by (simp add: n_term_def counts_pain_def)

lemma n_noterm_pain: "n_noterm counts_pain = [1]"
  by (simp add: n_noterm_def n_selected_noterm_def n_unselected_noterm_def counts_pain_def)

text \<open>
  Claim C2, amended. When the caller passes \<open>prior=None\<close>, the prior used for every feature
  in the forward and in the reverse effect size that \<open>neurosynth_decode\<close> returns is the
  empirical base rate \<open>n_term / (n_term + n_noterm)\<close>. When the caller supplies no prior,
  the forward and the reverse effect size it returns are computed, for every feature, with
  the default of the signature, \<open>0.5\<close>.
\<close>

theorem neurosynth_empirical_prior:
  assumes cs: "count_studies coordinates annotations ids ids2 feats (kw (1 / 1000) thr) = Inr c"
      and res: "neurosynth_decode ext coordinates annotations ids ids2 feats thr (Passed None) u
                  correction = Inr tbl"
      and dflt: "neurosynth_decode ext coordinates annotations ids ids2 feats thr Omitted u
                  correction = Inr tbl_default"
      and i: "i < length (features c)"
  shows "prior_used c (kw (Some (1 / 2)) (Passed None)) ! i =
           int_div (n_term c ! i) (n_term c ! i + n_noterm c ! i)
         \<and> effectForward (tbl ! i) =
             np_add (np_mul (int_div (n_term c ! i) (n_term c ! i + n_noterm c ! i))
                            (ns_p_selected_g_term c ! i))
                    (np_mul (np_sub (Fin 1) (int_div (n_term c ! i) (n_term c ! i + n_noterm c ! i)))
                            (ns_p_selected_g_noterm c ! i))
         \<and> probReverse (tbl ! i) =
             np_div (np_mul (ns_p_selected_g_term c ! i)
                            (int_div (n_term c ! i) (n_term c ! i + n_noterm c ! i)))
                    (effectForward (tbl ! i))
         \<and> effectForward (tbl_default ! i) =
             np_add (np_mul (Fin (1 / 2)) (ns_p_selected_g_term c ! i))
                    (np_mul (np_sub (Fin 1) (Fin (1 / 2))) (ns_p_selected_g_noterm c ! i))
         \<and> probReverse (tbl_default ! i) =
             np_div (np_mul (ns_p_selected_g_term c ! i) (Fin (1 / 2)))
                    (effectForward (tbl_default ! i))"
proof -
  note eff = neurosynth_effects_none [OF cs res i]
  note len = count_studies_lengths [OF cs]
  have d: "prior_used c (Some (1 / 2)) ! i = Fin (1 / 2)"
    using i by (simp add: prior_used_def)
  obtain p_corr_fi p_corr_ri where
    tbl: "tbl_default = out_df (features c)
                   p_corr_fi (z_values ext p_corr_fi (sign_fi c))
                   (p_selected_g_term_g_prior c (Some (1 / 2)))
                   p_corr_ri (z_values ext p_corr_ri (ns_sign_ri c))
                   (p_term_g_selected_g_prior c (Some (1 / 2)))"
    using neurosynth_decode_Inr [OF cs dflt] by auto
  have ef: "effectForward (tbl_default ! i) = p_selected_g_term_g_prior c (Some (1 / 2)) ! i"
    and er: "probReverse (tbl_default ! i) = p_term_g_selected_g_prior c (Some (1 / 2)) ! i"
    unfolding tbl using i by (simp_all add: out_df_nth)
  have df: "effectForward (tbl_default ! i) =
             np_add (np_mul (Fin (1 / 2)) (ns_p_selected_g_term c ! i))
                    (np_mul (np_sub (Fin 1) (Fin (1 / 2))) (ns_p_selected_g_noterm c ! i))"
    using ef ns_effects_nth(1) [OF len i, of "Some (1 / 2)"] unfolding d by simp
  have dr: "probReverse (tbl_default ! i) =
             np_div (np_mul (ns_p_selected_g_term c ! i) (Fin (1 / 2)))
                    (effectForward (tbl_default ! i))"
    using ef er ns_effects_nth(2) [OF len i, of "Some (1 / 2)"] unfolding d by simp
  show ?thesis
    using eff df dr by simp
qed

theorem neurosynth_empirical_prior_witness:
  "count_studies coords_ex ann_ex [1] None (Some [''pain'']) (kw (1 / 1000) Omitted)
     = Inr counts_pain
   \<and> (0::nat) < length (features counts_pain)
   \<and> n_term counts_pain = [2]
   \<and> n_noterm counts_pain = [1]
   \<and> ns_p_selected_g_term counts_pain = [Fin (1 / 2)]
   \<and> ns_p_selected_g_noterm counts_pain = [Fin 0]
   \<and> prior_used counts_pain (kw (Some (1 / 2)) (Passed None)) ! 0 = Fin (2 / 3)
   \<and> neurosynth_decode ext_ex coords_ex ann_ex [1] None (Some [''pain''])
        Omitted (Passed None) Omitted Omitted =
       Inr [\<lparr>Term = ''pain'', pForward = Fin 0, zForward = Fin 0, effectForward = Fin (1 / 3),
             pReverse = Fin 0, zReverse = Fin 0, probReverse = Fin 1\<rparr>]
   \<and> neurosynth_decode ext_ex coords_ex ann_ex [1] None (Some [''pain''])
        Omitted Omitted Omitted Omitted =
       Inr [\<lparr>Term = ''pain'', pForward = Fin 0, zForward = Fin 0, effectForward = Fin (1 / 4),
             pReverse = Fin 0, zReverse = Fin 0, probReverse = Fin 1\<rparr>]
   \<and> Fin (1 / 4) = np_add (np_mul (Fin (1 / 2)) (Fin (1 / 2)))
                       (np_mul (np_sub (Fin 1) (Fin (1 / 2))) (Fin 0))"
proof -
  have cs: "count_studies coords_ex ann_ex [1] None (Some [''pain'']) (kw (1 / 1000) Omitted)
              = Inr counts_pain"
    using count_studies_pain by simp
  have i: "(0::nat) < length (features counts_pain)" by (simp add: counts_pain_def)
  have a: "ns_p_selected_g_term counts_pain = [Fin (1 / 2)]"
    unfolding ns_p_selected_g_term_def n_term_pain
    by (simp add: int_div_def counts_pain_def)
  have b: "ns_p_selected_g_noterm counts_pain = [Fin 0]"
    unfolding ns_p_selected_g_noterm_def n_noterm_pain
    by (simp add: n_selected_noterm_def int_div_def counts_pain_def)
  note th = neurosynth_empirical_prior
              [OF cs neurosynth_decode_none neurosynth_decode_default i]
  have "prior_used counts_pain (kw (Some (1 / 2)) (Passed None)) ! 0 =
          int_div (n_term counts_pain ! 0) (n_term counts_pain ! 0 + n_noterm counts_pain ! 0)"
    using th by blast
  then have p: "prior_used counts_pain (kw (Some (1 / 2)) (Passed None)) ! 0 = Fin (2 / 3)"
    by (simp add: n_term_pain n_noterm_pain int_div_def)
  have "effectForward
          ([\<lparr>Term = ''pain'', pForward = Fin 0, zForward = Fin 0, effectForward = Fin (1 / 4),
             pReverse = Fin 0, zReverse = Fin 0, probReverse = Fin 1\<rparr>] ! 0) =
          np_add (np_mul (Fin (1 / 2)) (ns_p_selected_g_term counts_pain ! 0))
                 (np_mul (np_sub (Fin 1) (Fin (1 / 2))) (ns_p_selected_g_noterm counts_pain ! 0))"
    using th by blast
  then have d: "Fin (1 / 4) = np_add (np_mul (Fin (1 / 2)) (Fin (1 / 2)))
                                (np_mul (np_sub (Fin 1) (Fin (1 / 2))) (Fin 0))"
    by (simp add: a b)
  show ?thesis
    using cs i n_term_pain n_noterm_pain a b p d neurosynth_decode_none neurosynth_decode_default
    by simp
qed

text \<open>
  Claim C2 as stated fails: called without a prior, \<open>neurosynth_decode\<close> uses \<open>0.5\<close> where
  the base rate of the feature is \<open>2/3\<close>, and returns the forward effect \<open>1/4\<close> instead of
  the \<open>1/3\<close> that the base rate gives.
\<close>

theorem neurosynth_default_prior_counterexample:
  "count_studies coords_ex ann_ex [1] None (Some [''pain'']) (kw (1 / 1000) Omitted)
     = Inr counts_pain
   \<and> n_term counts_pain = [2]
   \<and> n_noterm counts_pain = [1]
   \<and> int_div 2 (2 + 1) = Fin (2 / 3)
   \<and> prior_used counts_pain (kw (Some (1 / 2)) Omitted) = [Fin (1 / 2)]
   \<and> map_sum id (map effectForward)
        (neurosynth_decode ext_ex coords_ex ann_ex [1] None (Some [''pain''])
           Omitted Omitted Omitted Omitted) = Inr [Fin (1 / 4)]
   \<and> map_sum id (map effectForward)
        (neurosynth_decode ext_ex coords_ex ann_ex [1] None (Some [''pain''])
           Omitted (Passed None) Omitted Omitted) = Inr [Fin (1 / 3)]"
proof -
  have cs: "count_studies coords_ex ann_ex [1] None (Some [''pain'']) (kw (1 / 1000) Omitted)
              = Inr counts_pain"
    using count_studies_pain by simp
  have p: "prior_used counts_pain (kw (Some (1 / 2)) Omitted) = [Fin (1 / 2)]"
    by (simp add: prior_used_def counts_pain_def)
  have q: "int_div 2 (2 + 1) = Fin (2 / 3)" by (simp add: int_div_def)
  show ?thesis
    using cs n_term_pain n_noterm_pain p q neurosynth_decode_default neurosynth_decode_none
    by simp
qed

lemma forward_mixture:
  fixes x y a s :: real
  assumes "0 < x" "0 < y"
  shows "x / (x + y) * (a / x) + (1 - x / (x + y)) * ((s - a) / y) = s / (x + y)"
proof -
  have xy: "x + y \<noteq> 0" using assms by simp
  have "1 - x / (x + y) = y / (x + y)" using xy by (simp add: field_simps)
  then have "x / (x + y) * (a / x) + (1 - x / (x + y)) * ((s - a) / y)
             = a / (x + y) + (s - a) / (x + y)"
    using assms by simp
  also have "\<dots> = s / (x + y)" by (simp add: add_divide_distrib [symmetric])
  finally show ?thesis .
qed

text \<open>
  Claim C9. Called with \<open>prior=None\<close>, \<open>neurosynth_decode\<close> returns for every feature with
  \<open>n_term > 0\<close> and \<open>n_noterm > 0\<close> the forward effect \<open>n_selected / (n_selected +
  n_unselected)\<close>, whatever the counts of the feature are.
\<close>

theorem neurosynth_forward_constant:
  assumes cs: "count_studies coordinates annotations ids ids2 feats (kw (1 / 1000) thr) = Inr c"
      and res: "neurosynth_decode ext coordinates annotations ids ids2 feats thr (Passed None) u
                  correction = Inr tbl"
      and i: "i < length (features c)"
      and nt: "0 < n_term c ! i"
      and nn: "0 < n_noterm c ! i"
  shows "effectForward (tbl ! i) =
           Fin (of_int (n_selected c) / of_int (n_selected c + n_unselected c))"
proof -
  note len = count_studies_lengths [OF cs]
  note nl = ns_lengths [OF len]
  let ?a = "n_selected_term c ! i" and ?b = "n_unselected_term c ! i"
  have t: "n_term c ! i = ?a + ?b"
    using i len by (simp add: n_term_def)
  have sn: "n_selected_noterm c ! i = n_selected c - ?a"
    using i len by (simp add: n_selected_noterm_def)
  have n: "n_noterm c ! i = (n_selected c - ?a) + (n_unselected c - ?b)"
    using i len by (simp add: n_noterm_def n_selected_noterm_def n_unselected_noterm_def)
  have tot: "n_term c ! i + n_noterm c ! i = n_selected c + n_unselected c"
    using t n by simp
  have x: "(0::real) < of_int (n_term c ! i)" and y: "(0::real) < of_int (n_noterm c ! i)"
    using nt nn by simp_all
  have pr: "int_div (n_term c ! i) (n_term c ! i + n_noterm c ! i) =
              Fin (of_int (n_term c ! i) / (of_int (n_term c ! i) + of_int (n_noterm c ! i)))"
    using nt nn by (simp add: int_div_def)
  have a: "ns_p_selected_g_term c ! i = Fin (of_int ?a / of_int (n_term c ! i))"
    using i len nl nt by (simp add: ns_p_selected_g_term_def int_div_def)
  have b: "ns_p_selected_g_noterm c ! i =
             Fin ((of_int (n_selected c) - of_int ?a) / of_int (n_noterm c ! i))"
    using i len nl nn sn by (simp add: ns_p_selected_g_noterm_def int_div_def)
  let ?x = "real_of_int (n_term c ! i)" and ?y = "real_of_int (n_noterm c ! i)"
  let ?s = "real_of_int (n_selected c)"
  note eff = neurosynth_effects_none [OF cs res i]
  have "effectForward (tbl ! i) =
          np_add (np_mul (Fin (?x / (?x + ?y))) (Fin (of_int ?a / ?x)))
            (np_mul (np_sub (Fin 1) (Fin (?x / (?x + ?y)))) (Fin ((?s - of_int ?a) / ?y)))"
    using eff(2) unfolding eff(1) pr a b .
  also have "\<dots> = Fin (?x / (?x + ?y) * (of_int ?a / ?x)
                       + (1 - ?x / (?x + ?y)) * ((?s - of_int ?a) / ?y))"
    by (simp only: np_sub_def np_neg.simps np_add.simps np_mul.simps) simp
  also have "\<dots> = Fin (?s / (?x + ?y))"
    by (simp only: forward_mixture [OF x y])
  also have "?x + ?y = of_int (n_selected c + n_unselected c)"
    using tot by (metis of_int_add)
  finally show ?thesis .
qed

theorem neurosynth_forward_constant_witness:
  "count_studies coords_ex ann_ex [1] None (Some [''pain'']) (kw (1 / 1000) Omitted)
     = Inr counts_pain
   \<and> (0::nat) < length (features counts_pain)
   \<and> 0 < n_term counts_pain ! 0
   \<and> 0 < n_noterm counts_pain ! 0
   \<and> n_selected counts_pain = 1
   \<and> n_unselected counts_pain = 2
   \<and> map_sum id (map effectForward)
        (neurosynth_decode ext_ex coords_ex ann_ex [1] None (Some [''pain''])
           Omitted (Passed None) Omitted Omitted) = Inr [Fin (1 / 3)]"
proof -
  have cs: "count_studies coords_ex ann_ex [1] None (Some [''pain'']) (kw (1 / 1000) Omitted)
              = Inr counts_pain"
    using count_studies_pain by simp
  have i: "(0::nat) < length (features counts_pain)" by (simp add: counts_pain_def)
  have nt: "0 < n_term counts_pain ! 0" by (simp add: n_term_pain)
  have nn: "0 < n_noterm counts_pain ! 0" by (simp add: n_noterm_pain)
  have s: "n_selected counts_pain = 1" and u: "n_unselected counts_pain = 2"
    by (simp_all add: counts_pain_def)
  have "effectForward
          ([\<lparr>Term = ''pain'', pForward = Fin 0, zForward = Fin 0, effectForward = Fin (1 / 3),
             pReverse = Fin 0, zReverse = Fin 0, probReverse = Fin 1\<rparr>] ! 0)
        = Fin (of_int (n_selected counts_pain)
               / of_int (n_selected counts_pain + n_unselected counts_pain))"
    using neurosynth_forward_constant [OF cs neurosynth_decode_none i nt nn] .
  then show ?thesis
    using cs i nt nn s u neurosynth_decode_none by simp
qed

end
